theory Spec2Isabelle
  imports Complex_Main
begin

section \<open>Multiple-shooting trajectory optimisation: the model\<close>

text \<open>
  A shallow embedding of \<^verbatim>\<open>python/neural/MultipleShootingTrajectory.py\<close>.

  Conventions of the embedding.
  \<^item> A float64 is a \<^typ>\<open>real\<close>. The one place where the code tests for NaN on data it is
    handed from outside (the vector \<^verbatim>\<open>x\<close> of the four solver callbacks) has the type
    \<open>fl list\<close>, whose entries are either NaN or a real; past the test every number is a real.
    The NaN tests on computed values (\<^verbatim>\<open>assert not np.isnan(out).any()\<close> and the
    diagnostics of \<^verbatim>\<open>unroll\<close>) can therefore never fire in the model and are left out.
    Infinities are not modelled.
  \<^item> A Python \<^verbatim>\<open>int\<close> is an \<^typ>\<open>int\<close>; \<^verbatim>\<open>math.floor(a / b)\<close> is \<open>a div b\<close> (exact
    below \<open>2 ^ 53\<close>) and \<^verbatim>\<open>a % b\<close> is \<open>a mod b\<close>, both guarded against a zero divisor.
  \<^item> An exception is a value \<open>Inl e\<close> of a sum type. Methods that mutate \<^verbatim>\<open>self\<close> take the
    object and return the outcome together with the object as the exception left it.
  \<^item> A torch tensor is a record of its \<^verbatim>\<open>.data\<close> and its \<^verbatim>\<open>.grad\<close>.
  \<^item> The physics engine (\<^verbatim>\<open>dart_layer\<close> with its \<^verbatim>\<open>BackpropSnapshot\<close>), the cost functions and
    the autodiff runtime are external: they are parameters of the model.
\<close>

subsection \<open>Exceptions and results\<close>

datatype exn =
  AssertionError | ValueError | IndexError | TypeError
  | ZeroDivisionError | RuntimeError | AttributeError

type_synonym 'a res = "exn + 'a"

definition bindR :: "'a res \<Rightarrow> ('a \<Rightarrow> 'b res) \<Rightarrow> 'b res" where
  "bindR m f = (case m of Inl e \<Rightarrow> Inl e | Inr v \<Rightarrow> f v)"

subsection \<open>Numbers, vectors and matrices\<close>

datatype fl = NaN | Fin real

type_synonym vec = "real list"
type_synonym mat = "real list list"

text \<open>\<^verbatim>\<open>np.isnan(x).any()\<close> and the NaN-free content of \<^verbatim>\<open>x\<close>.\<close>

definition isnan_any :: "fl list \<Rightarrow> bool" where
  "isnan_any x = (NaN \<in> set x)"

fun fin_of :: "fl \<Rightarrow> real" where
  "fin_of (Fin r) = r"
| "fin_of NaN = 0"

definition zeros :: "nat \<Rightarrow> vec" where
  "zeros n = replicate n 0"

text \<open>The slice \<^verbatim>\<open>xs[a:b]\<close> for \<open>0 \<le> a \<le> b\<close>: it is cut at the end of \<open>xs\<close>.\<close>

definition slice :: "'a list \<Rightarrow> nat \<Rightarrow> nat \<Rightarrow> 'a list" where
  "slice xs a b = take (b - a) (drop a xs)"

text \<open>
  The numpy assignment \<^verbatim>\<open>out[a:b] = v\<close>: the value must have the length of the slice
  or length one (it is then broadcast, also to an empty slice).
\<close>

definition set_slice :: "'a list \<Rightarrow> nat \<Rightarrow> nat \<Rightarrow> 'a list \<Rightarrow> 'a list res" where
  "set_slice out a b v =
     (let n = length (slice out a b) in
      if length v = n then Inr (take a out @ v @ drop b out)
      else if length v = 1 then Inr (take a out @ replicate n (hd v) @ drop b out)
      else Inl ValueError)"

text \<open>\<^verbatim>\<open>xs[i]\<close> and \<^verbatim>\<open>xs[i] = v\<close> for an index of a \<^verbatim>\<open>range\<close> (never negative).\<close>

definition get_item :: "'a list \<Rightarrow> nat \<Rightarrow> 'a res" where
  "get_item xs i = (if i < length xs then Inr (xs ! i) else Inl IndexError)"

definition set_item :: "'a list \<Rightarrow> nat \<Rightarrow> 'a \<Rightarrow> 'a list res" where
  "set_item xs i v = (if i < length xs then Inr (xs[i := v]) else Inl IndexError)"

text \<open>The same for a computed index, which may be negative and then counts from the end.\<close>

definition py_index :: "nat \<Rightarrow> int \<Rightarrow> nat res" where
  "py_index n i =
     (let j = (if i < 0 then int n + i else i)
      in if 0 \<le> j \<and> j < int n then Inr (nat j) else Inl IndexError)"

definition py_get :: "'a list \<Rightarrow> int \<Rightarrow> 'a res" where
  "py_get xs i = bindR (py_index (length xs) i) (\<lambda>j. Inr (xs ! j))"

definition py_set :: "'a list \<Rightarrow> int \<Rightarrow> 'a \<Rightarrow> 'a list res" where
  "py_set xs i v = bindR (py_index (length xs) i) (\<lambda>j. Inr (xs[j := v]))"

definition py_floordiv :: "int \<Rightarrow> int \<Rightarrow> int res" where
  "py_floordiv a b = (if b = 0 then Inl ZeroDivisionError else Inr (a div b))"

definition py_mod :: "int \<Rightarrow> int \<Rightarrow> int res" where
  "py_mod a b = (if b = 0 then Inl ZeroDivisionError else Inr (a mod b))"

text \<open>
  An elementwise operation on two one-dimensional tensors, with broadcasting: equal
  lengths, or one operand of length one.
\<close>

definition broadcast2 :: "('a \<Rightarrow> 'a \<Rightarrow> 'a) \<Rightarrow> 'a list \<Rightarrow> 'a list \<Rightarrow> 'a list res" where
  "broadcast2 f a b =
     (if length a = length b then Inr (map2 f a b)
      else if length a = 1 then Inr (map (f (hd a)) b)
      else if length b = 1 then Inr (map (\<lambda>x. f x (hd b)) a)
      else Inl RuntimeError)"

definition norm2 :: "vec \<Rightarrow> real" where
  "norm2 v = sqrt (sum_list (map (\<lambda>x. x * x) v))"

text \<open>
  Matrices are lists of rows. The sensitivity matrices of a snapshot are \<open>D \<times> D\<close> by the
  interface of the physics engine, so the products below are always well shaped.
\<close>

definition mat_identity :: "nat \<Rightarrow> mat" where
  "mat_identity n = map (\<lambda>i. map (\<lambda>j. if i = j then 1 else 0) [0..<n]) [0..<n]"

definition mat_zeros :: "nat \<Rightarrow> nat \<Rightarrow> mat" where
  "mat_zeros n m = replicate n (replicate m 0)"

definition mat_add :: "mat \<Rightarrow> mat \<Rightarrow> mat" where
  "mat_add A B = map2 (map2 (+)) A B"

definition mat_scale :: "real \<Rightarrow> mat \<Rightarrow> mat" where
  "mat_scale c A = map (map ((*) c)) A"

definition mat_col :: "mat \<Rightarrow> nat \<Rightarrow> vec" where
  "mat_col B j = map (\<lambda>r. r ! j) B"

definition matmul :: "mat \<Rightarrow> mat \<Rightarrow> mat" where
  "matmul A B =
     map (\<lambda>row. map (\<lambda>j. sum_list (map2 (*) row (mat_col B j)))
                    [0..<(case B of [] \<Rightarrow> 0 | r # _ \<Rightarrow> length r)]) A"

definition mat_concat_cols :: "mat \<Rightarrow> mat \<Rightarrow> mat" where
  "mat_concat_cols A B = map2 (@) A B"

definition mat_at :: "mat \<Rightarrow> nat \<Rightarrow> nat \<Rightarrow> real res" where
  "mat_at M r c = bindR (get_item M r) (\<lambda>row. get_item row c)"

subsection \<open>The external collaborators and the object\<close>

text \<open>
  What a \<^verbatim>\<open>BackpropSnapshot\<close> exposes: \<open>pos_pos\<close> is \<^verbatim>\<open>getPosPosJacobian\<close>
  (\<open>p\<^sub>t\<^sub>+\<^sub>1 \<leftarrow> p\<^sub>t\<close>), \<open>pos_vel\<close> is \<^verbatim>\<open>getPosVelJacobian\<close> (\<open>v\<^sub>t\<^sub>+\<^sub>1 \<leftarrow> p\<^sub>t\<close>), \<open>vel_vel\<close> is
  \<^verbatim>\<open>getVelVelJacobian\<close> (\<open>v\<^sub>t\<^sub>+\<^sub>1 \<leftarrow> v\<^sub>t\<close>) and \<open>force_vel\<close> is \<^verbatim>\<open>getForceVelJacobian\<close>
  (\<open>v\<^sub>t\<^sub>+\<^sub>1 \<leftarrow> f\<^sub>t\<close>).
\<close>

record snapshot =
  pos_pos :: mat
  pos_vel :: mat
  vel_vel :: mat
  force_vel :: mat

text \<open>
  The simulated world: its size, time step, state and limits, and the forward-dynamics
  step \<^verbatim>\<open>dart_layer(world, pos, vel, t, pointer)\<close>, which returns the next position and
  velocity and leaves the snapshot of the step in the pointer.
\<close>

record world =
  getNumDofs :: nat
  getTimeStep :: real
  getPositions :: vec
  getVelocities :: vec
  getPositionUpperLimits :: vec
  getPositionLowerLimits :: vec
  getVelocityUpperLimits :: vec
  getVelocityLowerLimits :: vec
  getForceUpperLimits :: vec
  getForceLowerLimits :: vec
  dart_layer :: "vec \<Rightarrow> vec \<Rightarrow> vec \<Rightarrow> vec \<times> vec \<times> snapshot"

record tensor =
  data :: vec
  grad :: "vec option"

text \<open>A line of standard output.\<close>

datatype msg = Line string | Dump string "fl list" | Exc exn

record trajectory =
  world :: world
  step_loss :: "vec \<Rightarrow> vec \<Rightarrow> vec \<Rightarrow> real"
  final_loss :: "vec \<Rightarrow> vec \<Rightarrow> real"
  steps :: int
  shooting_length :: int
  disable_actuators :: "int list"
  tune_starting_point :: bool
  enforce_loop :: bool
  enforce_final_state :: "vec option"
  num_shots :: int
  torques :: "tensor list"
  knot_poses :: "tensor list"
  knot_vels :: "tensor list"
  mask :: "int list"
  last_x :: vec
  snapshots :: "snapshot option list"
  last_loss :: real
  last_preknot_poses :: "vec list"
  last_preknot_vels :: "vec list"
  last_terminal_pos :: vec
  last_terminal_vel :: vec
  soft_knot_barrier_strength :: real
  stdout :: "msg list"

abbreviation world_dofs :: "trajectory \<Rightarrow> nat" where
  "world_dofs s \<equiv> getNumDofs (world s)"

subsection \<open>Problem dimensions\<close>

definition get_flat_problem_dim :: "trajectory \<Rightarrow> int res" where
  "get_flat_problem_dim s =
     (let knot_phase_dim = int (world_dofs s) * 2;
          torques_dim = shooting_length s * int (world_dofs s);
          shot_dim = knot_phase_dim + torques_dim;
          dims = num_shots s * shot_dim;
          dims = (if \<not> tune_starting_point s then dims - 2 * int (world_dofs s) else dims)
      in bindR (py_mod (steps s) (shooting_length s))
           (\<lambda>r. Inr (dims - r * int (world_dofs s))))"

definition get_constraint_dim :: "trajectory \<Rightarrow> int" where
  "get_constraint_dim s =
     (let knot_phase_dim = int (world_dofs s) * 2;
          num_knot_points = num_shots s - 1;
          num_knot_points =
            (if enforce_loop s \<or> enforce_final_state s \<noteq> None
             then num_knot_points + 1 else num_knot_points)
      in num_knot_points * knot_phase_dim)"

subsection \<open>The constructor\<close>

text \<open>
  \<^verbatim>\<open>for j in disable_actuators: self.mask[j] = 0\<close> on the mask \<^verbatim>\<open>[1] * world_dofs\<close>.
\<close>

fun disable_mask :: "int list \<Rightarrow> int list \<Rightarrow> int list res" where
  "disable_mask [] m = Inr m"
| "disable_mask (j # js) m = bindR (py_set m j 0) (disable_mask js)"

definition fresh_tensor :: "vec \<Rightarrow> tensor" where
  "fresh_tensor v = \<lparr>data = v, grad = None\<rparr>"

definition construct ::
  "world \<Rightarrow> (vec \<Rightarrow> vec \<Rightarrow> vec \<Rightarrow> real) \<Rightarrow> (vec \<Rightarrow> vec \<Rightarrow> real) \<Rightarrow> int \<Rightarrow> int \<Rightarrow> bool \<Rightarrow> bool
     \<Rightarrow> vec option \<Rightarrow> int list \<Rightarrow> trajectory res" where
  "construct w sl fl stps shooting_len tune loop final disabled =
     (if loop \<and> final \<noteq> None then Inl AssertionError
      else
        bindR (py_floordiv stps shooting_len) (\<lambda>shots.
        bindR (disable_mask disabled (replicate (getNumDofs w) 1)) (\<lambda>m.
          let d = getNumDofs w;
              s = \<lparr>world = w, step_loss = sl, final_loss = fl, steps = stps,
                   shooting_length = min shooting_len stps,
                   disable_actuators = disabled,
                   tune_starting_point = tune, enforce_loop = loop,
                   enforce_final_state = final,
                   num_shots = shots,
                   torques = replicate (nat stps) (fresh_tensor (zeros d)),
                   knot_poses = fresh_tensor (getPositions w)
                                # replicate (nat (shots - 1)) (fresh_tensor (zeros d)),
                   knot_vels = fresh_tensor (getVelocities w)
                                # replicate (nat (shots - 1)) (fresh_tensor (zeros d)),
                   mask = m,
                   last_x = [],
                   snapshots = replicate (nat stps) None,
                   last_loss = 0,
                   last_preknot_poses = replicate (nat shots) (zeros d),
                   last_preknot_vels = replicate (nat shots) (zeros d),
                   last_terminal_pos = zeros d,
                   last_terminal_vel = zeros d,
                   soft_knot_barrier_strength = 1,
                   stdout = []\<rparr>
          in bindR (get_flat_problem_dim s) (\<lambda>n.
               if n < 0 then Inl ValueError
               else Inr (s\<lparr>last_x := replicate (nat n) (10 ^ 19)\<rparr>)))))"

subsection \<open>The encoding layer\<close>

text \<open>
  \<^verbatim>\<open>tensors()\<close> returns references to tensors of the object; a reference is the list it
  lives in and its index there.
\<close>

datatype tensor_ref = Torque nat | KnotPose nat | KnotVel nat

definition tensors :: "trajectory \<Rightarrow> tensor_ref list" where
  "tensors s =
     (let t = map Torque [0..<length (torques s)]
              @ map KnotVel [1..<length (knot_vels s)]
              @ map KnotPose [1..<length (knot_poses s)]
      in if tune_starting_point s then [KnotPose 0, KnotPose 0] @ t else t)"

text \<open>
  What \<^verbatim>\<open>flatten\<close> writes for knot \<open>i\<close> (position, then velocity) and for torque \<open>tc\<close>,
  by the kind \<^verbatim>\<open>which\<close> asked for.
\<close>

definition grad_or_zeros :: "nat \<Rightarrow> tensor \<Rightarrow> vec" where
  "grad_or_zeros d t = (case grad t of None \<Rightarrow> zeros d | Some g \<Rightarrow> g)"

definition flat_knot_pose :: "trajectory \<Rightarrow> string \<Rightarrow> nat \<Rightarrow> vec res" where
  "flat_knot_pose s which i =
     (if which = ''grad'' then
        bindR (get_item (knot_poses s) i) (\<lambda>t. Inr (grad_or_zeros (world_dofs s) t))
      else if which = ''upper_bound'' then Inr (getPositionUpperLimits (world s))
      else if which = ''lower_bound'' then Inr (getPositionLowerLimits (world s))
      else if which = ''state'' then bindR (get_item (knot_poses s) i) (\<lambda>t. Inr (data t))
      else Inl AssertionError)"

definition flat_knot_vel :: "trajectory \<Rightarrow> string \<Rightarrow> nat \<Rightarrow> vec res" where
  "flat_knot_vel s which i =
     (if which = ''grad'' then
        bindR (get_item (knot_vels s) i) (\<lambda>t. Inr (grad_or_zeros (world_dofs s) t))
      else if which = ''upper_bound'' then Inr (getVelocityUpperLimits (world s))
      else if which = ''lower_bound'' then Inr (getVelocityLowerLimits (world s))
      else if which = ''state'' then bindR (get_item (knot_vels s) i) (\<lambda>t. Inr (data t))
      else Inl AssertionError)"

definition flat_torque :: "trajectory \<Rightarrow> string \<Rightarrow> nat \<Rightarrow> vec res" where
  "flat_torque s which tc =
     (if which = ''grad'' then
        bindR (get_item (torques s) tc) (\<lambda>t. Inr (grad_or_zeros (world_dofs s) t))
      else if which = ''upper_bound'' then Inr (getForceUpperLimits (world s))
      else if which = ''lower_bound'' then Inr (getForceLowerLimits (world s))
      else if which = ''state'' then bindR (get_item (torques s) tc) (\<lambda>t. Inr (data t))
      else Inl AssertionError)"

text \<open>
  \<^verbatim>\<open>shot_length = min(self.shooting_length, len(self.torques) - torque_cursor)\<close>, as the
  number of rounds of \<^verbatim>\<open>for j in range(shot_length)\<close>.
\<close>

definition shot_length :: "trajectory \<Rightarrow> nat \<Rightarrow> nat" where
  "shot_length s tc = nat (min (shooting_length s) (int (length (torques s)) - int tc))"

text \<open>
  The loops of \<^verbatim>\<open>flatten\<close>. The state of a loop is \<open>(flat_cursor, torque_cursor, out)\<close>.
\<close>

fun flatten_torques ::
  "trajectory \<Rightarrow> string \<Rightarrow> nat \<Rightarrow> nat \<times> nat \<times> vec \<Rightarrow> (nat \<times> nat \<times> vec) res" where
  "flatten_torques s which 0 st = Inr st"
| "flatten_torques s which (Suc k) (fc, tc, out) =
     bindR (flat_torque s which tc) (\<lambda>v.
     bindR (set_slice out fc (fc + world_dofs s) v) (\<lambda>out'.
       flatten_torques s which k (fc + world_dofs s, tc + 1, out')))"

definition flatten_knot :: "trajectory \<Rightarrow> string \<Rightarrow> nat \<Rightarrow> nat \<times> vec \<Rightarrow> (nat \<times> vec) res" where
  "flatten_knot s which i = (\<lambda>(fc, out).
     bindR (flat_knot_pose s which i) (\<lambda>p.
     bindR (set_slice out fc (fc + world_dofs s) p) (\<lambda>out1.
     bindR (flat_knot_vel s which i) (\<lambda>v.
     bindR (set_slice out1 (fc + world_dofs s) (fc + world_dofs s + world_dofs s) v) (\<lambda>out2.
       Inr (fc + world_dofs s + world_dofs s, out2))))))"

fun flatten_shots ::
  "trajectory \<Rightarrow> string \<Rightarrow> nat list \<Rightarrow> nat \<times> nat \<times> vec \<Rightarrow> (nat \<times> nat \<times> vec) res" where
  "flatten_shots s which [] st = Inr st"
| "flatten_shots s which (i # shots) (fc, tc, out) =
     bindR (if i > 0 \<or> tune_starting_point s then flatten_knot s which i (fc, out)
            else Inr (fc, out)) (\<lambda>(fc1, out1).
     bindR (flatten_torques s which (shot_length s tc) (fc1, tc, out1))
       (flatten_shots s which shots))"

definition flatten :: "trajectory \<Rightarrow> vec \<Rightarrow> string \<Rightarrow> vec res" where
  "flatten s out which =
     bindR (get_flat_problem_dim s) (\<lambda>n.
       if int (length out) \<noteq> n then Inl AssertionError
       else bindR (flatten_shots s which [0..<nat (num_shots s)] (0, 0, out))
              (\<lambda>(fc, tc, out'). Inr out'))"

text \<open>
  \<^verbatim>\<open>unflatten\<close> assigns the \<^verbatim>\<open>.data\<close> of the tensors; the state of its loops is
  \<open>(flat_cursor, torque_cursor)\<close> and the object.
\<close>

definition set_data :: "tensor list \<Rightarrow> nat \<Rightarrow> vec \<Rightarrow> tensor list res" where
  "set_data ts i v = (if i < length ts then Inr (ts[i := (ts ! i)\<lparr>data := v\<rparr>]) else Inl IndexError)"

fun unflatten_torques ::
  "vec \<Rightarrow> nat \<Rightarrow> nat \<times> nat \<Rightarrow> trajectory \<Rightarrow> (nat \<times> nat) res \<times> trajectory" where
  "unflatten_torques x 0 c s = (Inr c, s)"
| "unflatten_torques x (Suc k) (fc, tc) s =
     (case set_data (torques s) tc (slice x fc (fc + world_dofs s)) of
        Inl e \<Rightarrow> (Inl e, s)
      | Inr ts \<Rightarrow> unflatten_torques x k (fc + world_dofs s, tc + 1) (s\<lparr>torques := ts\<rparr>))"

definition unflatten_knot :: "vec \<Rightarrow> nat \<Rightarrow> nat \<Rightarrow> trajectory \<Rightarrow> nat res \<times> trajectory" where
  "unflatten_knot x i fc s =
     (case set_data (knot_poses s) i (slice x fc (fc + world_dofs s)) of
        Inl e \<Rightarrow> (Inl e, s)
      | Inr ps \<Rightarrow>
         (case set_data (knot_vels s) i
                 (slice x (fc + world_dofs s) (fc + world_dofs s + world_dofs s)) of
            Inl e \<Rightarrow> (Inl e, s\<lparr>knot_poses := ps\<rparr>)
          | Inr vs \<Rightarrow> (Inr (fc + world_dofs s + world_dofs s),
                       s\<lparr>knot_poses := ps, knot_vels := vs\<rparr>)))"

fun unflatten_shots ::
  "vec \<Rightarrow> nat list \<Rightarrow> nat \<times> nat \<Rightarrow> trajectory \<Rightarrow> (nat \<times> nat) res \<times> trajectory" where
  "unflatten_shots x [] c s = (Inr c, s)"
| "unflatten_shots x (i # shots) (fc, tc) s =
     (case (if i > 0 \<or> tune_starting_point s then unflatten_knot x i fc s else (Inr fc, s)) of
        (Inl e, s1) \<Rightarrow> (Inl e, s1)
      | (Inr fc1, s1) \<Rightarrow>
         (case unflatten_torques x (shot_length s1 tc) (fc1, tc) s1 of
            (Inl e, s2) \<Rightarrow> (Inl e, s2)
          | (Inr c2, s2) \<Rightarrow> unflatten_shots x shots c2 s2))"

definition unflatten :: "vec \<Rightarrow> trajectory \<Rightarrow> unit res \<times> trajectory" where
  "unflatten x s =
     (case unflatten_shots x [0..<nat (num_shots s)] (0, 0) s of
        (Inl e, s') \<Rightarrow> (Inl e, s')
      | (Inr c, s') \<Rightarrow> (Inr (), s'))"

text \<open>
  The offset tables of the knots in \<open>x\<close> and in \<open>g(x)\<close>; \<open>None\<close> is Python's \<^verbatim>\<open>None\<close>.
  In \<^verbatim>\<open>get_knot_x_offsets\<close> the cursors move by \<^verbatim>\<open>shot_length\<close> itself, which is an
  \<^verbatim>\<open>int\<close>.
\<close>

fun knot_x_offsets_loop ::
  "trajectory \<Rightarrow> nat list \<Rightarrow> int \<times> int \<Rightarrow> int option list \<Rightarrow> int option list" where
  "knot_x_offsets_loop s [] c offs = offs"
| "knot_x_offsets_loop s (i # shots) (fc, tc) offs =
     (let (offs1, fc1) =
        (if i > 0 \<or> tune_starting_point s
         then (offs @ [Some fc], fc + int (world_dofs s) * 2)
         else (offs @ [None], fc));
          shot_length = min (shooting_length s) (int (length (torques s)) - tc)
      in knot_x_offsets_loop s shots
           (fc1 + shot_length * int (world_dofs s), tc + shot_length) offs1)"

definition get_knot_x_offsets :: "trajectory \<Rightarrow> int option list" where
  "get_knot_x_offsets s = knot_x_offsets_loop s [0..<nat (num_shots s)] (0, 0) []"

fun knot_g_offsets_loop ::
  "trajectory \<Rightarrow> nat list \<Rightarrow> int \<Rightarrow> int option list \<Rightarrow> int option list" where
  "knot_g_offsets_loop s [] fc offs = offs"
| "knot_g_offsets_loop s (i # shots) fc offs =
     (if i > 0
      then knot_g_offsets_loop s shots (fc + int (world_dofs s) * 2) (offs @ [Some fc])
      else knot_g_offsets_loop s shots fc (offs @ [None]))"

definition get_knot_g_offsets :: "trajectory \<Rightarrow> int option list" where
  "get_knot_g_offsets s =
     knot_g_offsets_loop s [0..<nat (num_shots s)]
       (if enforce_loop s \<or> enforce_final_state s \<noteq> None then int (world_dofs s) * 2 else 0) []"

subsection \<open>The rollout\<close>

text \<open>
  The soft barrier \<^verbatim>\<open>exp((a_pos - b_pos).norm() * k) + exp(10 * (a_vel - b_vel).norm() * k)\<close>.
\<close>

definition barrier_value :: "real \<Rightarrow> vec \<Rightarrow> vec \<Rightarrow> real" where
  "barrier_value k dp dv = exp (norm2 dp * k) + exp (10 * norm2 dv * k)"

definition knot_barrier :: "real \<Rightarrow> vec \<Rightarrow> vec \<Rightarrow> vec \<Rightarrow> vec \<Rightarrow> real res" where
  "knot_barrier k a_pos b_pos a_vel b_vel =
     bindR (broadcast2 (-) a_pos b_pos) (\<lambda>dp.
     bindR (broadcast2 (-) a_vel b_vel) (\<lambda>dv. Inr (barrier_value k dp dv)))"

text \<open>The body of \<^verbatim>\<open>unroll\<close> at a knot point: record the state reached, reset to the knot.\<close>

definition unroll_knot ::
  "nat \<Rightarrow> vec \<times> vec \<times> real \<Rightarrow> trajectory \<Rightarrow> (vec \<times> vec \<times> real) res \<times> trajectory" where
  "unroll_knot i = (\<lambda>(pos, vel, knot_loss) s.
     let knot_index = int i div shooting_length s in
     case py_get (knot_poses s) knot_index of
       Inl e \<Rightarrow> (Inl e, s)
     | Inr knot_pos \<Rightarrow>
     (case py_get (knot_vels s) knot_index of
       Inl e \<Rightarrow> (Inl e, s)
     | Inr knot_vel \<Rightarrow>
     (case knot_barrier (soft_knot_barrier_strength s) (data knot_pos) pos (data knot_vel) vel of
       Inl e \<Rightarrow> (Inl e, s)
     | Inr this_knot_loss \<Rightarrow>
     (case py_set (last_preknot_poses s) knot_index pos of
       Inl e \<Rightarrow> (Inl e, s)
     | Inr pps \<Rightarrow>
     (case py_set (last_preknot_vels s) knot_index vel of
       Inl e \<Rightarrow> (Inl e, s\<lparr>last_preknot_poses := pps\<rparr>)
     | Inr pvs \<Rightarrow>
        (Inr (data knot_pos, data knot_vel, knot_loss + this_knot_loss),
         s\<lparr>last_preknot_poses := pps, last_preknot_vels := pvs\<rparr>))))))"

text \<open>
  \<^verbatim>\<open>t = self.torques[i] * self.mask\<close>, the control every step hands on, for finite stored
  values; \<open>masked_torque_f64\<close> below is the same line on every floating-point value.
\<close>

definition masked_torque :: "trajectory \<Rightarrow> nat \<Rightarrow> vec res" where
  "masked_torque s i =
     bindR (get_item (torques s) i) (\<lambda>tq. broadcast2 (*) (data tq) (map real_of_int (mask s)))"

text \<open>
  The loop of \<^verbatim>\<open>unroll\<close> over the steps, with \<open>(pos, vel, loss, knot_loss)\<close> as its state.
  \<^verbatim>\<open>after_step\<close> is \<^verbatim>\<open>None\<close> in every call the class makes.
\<close>

fun unroll_steps ::
  "bool \<Rightarrow> nat list \<Rightarrow> vec \<times> vec \<times> real \<times> real \<Rightarrow> trajectory
     \<Rightarrow> (vec \<times> vec \<times> real \<times> real) res \<times> trajectory" where
  "unroll_steps use_knots [] acc s = (Inr acc, s)"
| "unroll_steps use_knots (i # rest) (pos, vel, loss, knot_loss) s =
     (case masked_torque s i of
        Inl e \<Rightarrow> (Inl e, s)
      | Inr t \<Rightarrow>
       (case py_mod (int i) (shooting_length s) of
          Inl e \<Rightarrow> (Inl e, s)
        | Inr r \<Rightarrow>
         (case (if r = 0 \<and> i > 0 \<and> use_knots then unroll_knot i (pos, vel, knot_loss) s
                else (Inr (pos, vel, knot_loss), s)) of
            (Inl e, s1) \<Rightarrow> (Inl e, s1)
          | (Inr (pos1, vel1, knot_loss1), s1) \<Rightarrow>
             (case dart_layer (world s1) pos1 vel1 t of
                (next_pos, next_vel, snap) \<Rightarrow>
                 (case set_item (snapshots s1) i (Some snap) of
                    Inl e \<Rightarrow> (Inl e, s1)
                  | Inr sn \<Rightarrow>
                     unroll_steps use_knots rest
                       (next_pos, next_vel, loss + step_loss s1 pos1 vel1 t, knot_loss1)
                       (s1\<lparr>snapshots := sn\<rparr>))))))"

definition loop_barrier :: "trajectory \<Rightarrow> vec \<Rightarrow> vec \<Rightarrow> real \<Rightarrow> real res" where
  "loop_barrier s pos vel knot_loss =
     (if enforce_loop s then
        bindR (get_item (knot_poses s) 0) (\<lambda>start_pos.
        bindR (get_item (knot_vels s) 0) (\<lambda>start_vel.
        bindR (knot_barrier (soft_knot_barrier_strength s) pos (data start_pos) vel (data start_vel))
          (\<lambda>loop_loss. Inr (knot_loss + loop_loss))))
      else Inr knot_loss)"

definition final_barrier :: "trajectory \<Rightarrow> vec \<Rightarrow> vec \<Rightarrow> real \<Rightarrow> real res" where
  "final_barrier s pos vel knot_loss =
     (case enforce_final_state s of
        None \<Rightarrow> Inr knot_loss
      | Some target \<Rightarrow>
         bindR (knot_barrier (soft_knot_barrier_strength s)
                  pos (take (world_dofs s) target) vel (drop (world_dofs s) target))
           (\<lambda>loop_loss. Inr (knot_loss + loop_loss)))"

definition unroll :: "bool \<Rightarrow> trajectory \<Rightarrow> (real \<times> real) res \<times> trajectory" where
  "unroll use_knots s =
     (case bindR (get_item (knot_poses s) 0) (\<lambda>p. bindR (get_item (knot_vels s) 0) (\<lambda>v. Inr (p, v))) of
        Inl e \<Rightarrow> (Inl e, s)
      | Inr (p0, v0) \<Rightarrow>
       (case unroll_steps use_knots [0..<nat (steps s)] (data p0, data v0, 0, 0) s of
          (Inl e, s1) \<Rightarrow> (Inl e, s1)
        | (Inr (pos, vel, loss, knot_loss), s1) \<Rightarrow>
           (let loss1 = loss + final_loss s1 pos vel;
                s2 = s1\<lparr>last_terminal_pos := pos, last_terminal_vel := vel\<rparr>
            in case bindR (loop_barrier s2 pos vel knot_loss) (final_barrier s2 pos vel) of
                 Inl e \<Rightarrow> (Inl e, s2)
               | Inr knot_loss1 \<Rightarrow> (Inr (loss1, knot_loss1), s2\<lparr>last_loss := loss1\<rparr>))))"

text \<open>
  \<^verbatim>\<open>ensure_fresh_rollout\<close> always unrolls. Its test \<^verbatim>\<open>(x != self.last_x).any()\<close> is
  evaluated first and fails when the two arrays cannot be compared element by element.
\<close>

definition ensure_fresh_rollout :: "vec \<Rightarrow> trajectory \<Rightarrow> unit res \<times> trajectory" where
  "ensure_fresh_rollout x s =
     (if length x \<noteq> length (last_x s) \<and> length x \<noteq> 1 \<and> length (last_x s) \<noteq> 1
      then (Inl ValueError, s)
      else
        (case unflatten x (s\<lparr>last_x := x\<rparr>) of
           (Inl e, s1) \<Rightarrow> (Inl e, s1)
         | (Inr u, s1) \<Rightarrow>
            (case unroll True s1 of
               (Inl e, s2) \<Rightarrow> (Inl e, s2)
             | (Inr losses, s2) \<Rightarrow> (Inr (), s2))))"

subsection \<open>The masked control on floating-point values\<close>

text \<open>
  The tensors of the program hold \<^verbatim>\<open>torch.float64\<close> values, and a stored torque may be an
  infinity or a NaN (\<^verbatim>\<open>unflatten\<close> copies whatever the flat vector holds, and the NaN test
  of the callbacks lets an infinity through). The rest of this theory takes the finite
  values only, as reals. For the product \<^verbatim>\<open>self.torques[i] * self.mask\<close> the other values
  matter, so here is the same line on all of them: a finite number (multiplying one by the
  0 or 1 of the mask is exact; the sign of a zero is not kept, \<^verbatim>\<open>-0.0 == 0.0\<close>), the two
  infinities and NaN, with the IEEE 754 product: NaN times anything and zero times an
  infinity are NaN. The mask is an integer tensor and is converted for the product.
\<close>

datatype f64 = Finite real | PInf | NInf | NotANumber

fun f64_mul :: "f64 \<Rightarrow> f64 \<Rightarrow> f64" where
  "f64_mul NotANumber b = NotANumber"
| "f64_mul a NotANumber = NotANumber"
| "f64_mul (Finite a) (Finite b) = Finite (a * b)"
| "f64_mul (Finite a) PInf = (if a = 0 then NotANumber else if 0 < a then PInf else NInf)"
| "f64_mul (Finite a) NInf = (if a = 0 then NotANumber else if 0 < a then NInf else PInf)"
| "f64_mul PInf (Finite b) = (if b = 0 then NotANumber else if 0 < b then PInf else NInf)"
| "f64_mul NInf (Finite b) = (if b = 0 then NotANumber else if 0 < b then NInf else PInf)"
| "f64_mul PInf PInf = PInf"
| "f64_mul PInf NInf = NInf"
| "f64_mul NInf PInf = NInf"
| "f64_mul NInf NInf = PInf"

text \<open>
  \<^verbatim>\<open>t = self.torques[i] * self.mask\<close> on the stored values \<open>stored\<close> of \<^verbatim>\<open>self.torques\<close>.
\<close>

definition masked_torque_f64 :: "f64 list list \<Rightarrow> int list \<Rightarrow> nat \<Rightarrow> f64 list res" where
  "masked_torque_f64 stored msk i =
     bindR (get_item stored i) (\<lambda>tq.
       broadcast2 f64_mul tq (map (\<lambda>m. Finite (real_of_int m)) msk))"

subsection \<open>Objective, gradient and constraints\<close>

definition fed_nans :: "string \<Rightarrow> fl list \<Rightarrow> trajectory \<Rightarrow> trajectory" where
  "fed_nans what x s = s\<lparr>stdout := stdout s @ [Line what, Dump ''x = '' x]\<rparr>"

definition eval_f :: "fl list \<Rightarrow> trajectory \<Rightarrow> real res \<times> trajectory" where
  "eval_f x s =
     (if isnan_any x then (Inl AssertionError, fed_nans ''f(x) was fed NaNs!'' x s)
      else
        (case ensure_fresh_rollout (map fin_of x) s of
           (Inl e, s1) \<Rightarrow> (Inl e, s1)
         | (Inr u, s1) \<Rightarrow> (Inr (last_loss s1), s1)))"

text \<open>
  Zeroing the gradients of \<^verbatim>\<open>tensors()\<close>, and \<^verbatim>\<open>last_loss.backward()\<close>: the autodiff
  runtime adds the gradient \<open>ag s r\<close> of the loss with respect to the leaf \<open>r\<close> to its
  \<^verbatim>\<open>.grad\<close>; the start knot is a leaf only when \<^verbatim>\<open>tune_starting_point\<close> is set.
\<close>

definition zero_grad :: "tensor \<Rightarrow> tensor" where
  "zero_grad t = (case grad t of None \<Rightarrow> t | Some g \<Rightarrow> t\<lparr>grad := Some (map (\<lambda>_. 0) g)\<rparr>)"

fun zero_ref :: "tensor_ref \<Rightarrow> trajectory \<Rightarrow> trajectory" where
  "zero_ref (Torque i) s = s\<lparr>torques := (torques s)[i := zero_grad (torques s ! i)]\<rparr>"
| "zero_ref (KnotPose i) s = s\<lparr>knot_poses := (knot_poses s)[i := zero_grad (knot_poses s ! i)]\<rparr>"
| "zero_ref (KnotVel i) s = s\<lparr>knot_vels := (knot_vels s)[i := zero_grad (knot_vels s ! i)]\<rparr>"

definition zero_grads :: "trajectory \<Rightarrow> trajectory" where
  "zero_grads s = fold zero_ref (tensors s) s"

definition accumulate :: "vec option \<Rightarrow> tensor \<Rightarrow> tensor" where
  "accumulate g t =
     (case g of
        None \<Rightarrow> t
      | Some gv \<Rightarrow> t\<lparr>grad := Some (case grad t of None \<Rightarrow> gv | Some old \<Rightarrow> map2 (+) old gv)\<rparr>)"

definition leaf_grad ::
  "(trajectory \<Rightarrow> tensor_ref \<Rightarrow> vec option) \<Rightarrow> trajectory \<Rightarrow> tensor_ref \<Rightarrow> vec option" where
  "leaf_grad ag s r =
     (if \<not> tune_starting_point s \<and> (r = KnotPose 0 \<or> r = KnotVel 0) then None else ag s r)"

definition backward :: "(trajectory \<Rightarrow> tensor_ref \<Rightarrow> vec option) \<Rightarrow> trajectory \<Rightarrow> trajectory" where
  "backward ag s =
     s\<lparr>torques := map (\<lambda>i. accumulate (leaf_grad ag s (Torque i)) (torques s ! i))
                    [0..<length (torques s)],
       knot_poses := map (\<lambda>i. accumulate (leaf_grad ag s (KnotPose i)) (knot_poses s ! i))
                    [0..<length (knot_poses s)],
       knot_vels := map (\<lambda>i. accumulate (leaf_grad ag s (KnotVel i)) (knot_vels s ! i))
                    [0..<length (knot_vels s)]\<rparr>"

definition eval_grad_f ::
  "(trajectory \<Rightarrow> tensor_ref \<Rightarrow> vec option) \<Rightarrow> fl list \<Rightarrow> vec \<Rightarrow> trajectory \<Rightarrow> vec res \<times> trajectory" where
  "eval_grad_f ag x out s =
     (if isnan_any x then (Inl AssertionError, fed_nans ''grad f(x) was fed NaNs!'' x s)
      else
        (case get_flat_problem_dim s of
           Inl e \<Rightarrow> (Inl e, s)
         | Inr n \<Rightarrow>
            if int (length out) \<noteq> n then (Inl AssertionError, s)
            else
              (case ensure_fresh_rollout (map fin_of x) s of
                 (Inl e, s1) \<Rightarrow> (Inl e, s1)
               | (Inr u, s1) \<Rightarrow>
                  (let s2 = backward ag (zero_grads s1)
                   in (flatten s2 out ''grad'', s2)))))"

text \<open>
  \<^verbatim>\<open>eval_g\<close>: the residual blocks are written one after the other through a cursor.
\<close>

definition write_diff :: "nat \<Rightarrow> vec \<Rightarrow> vec \<Rightarrow> nat \<times> vec \<Rightarrow> (nat \<times> vec) res" where
  "write_diff d a b = (\<lambda>(cursor, out).
     bindR (broadcast2 (-) a b) (\<lambda>v.
     bindR (set_slice out cursor (cursor + d) v) (\<lambda>out'. Inr (cursor + d, out'))))"

definition g_terminal :: "trajectory \<Rightarrow> nat \<times> vec \<Rightarrow> (nat \<times> vec) res" where
  "g_terminal s st =
     (if enforce_loop s then
        bindR (get_item (knot_poses s) 0) (\<lambda>p0.
        bindR (write_diff (world_dofs s) (last_terminal_pos s) (data p0) st) (\<lambda>st1.
        bindR (get_item (knot_vels s) 0) (\<lambda>v0.
          write_diff (world_dofs s) (last_terminal_vel s) (data v0) st1)))
      else
        (case enforce_final_state s of
           Some target \<Rightarrow>
             bindR (write_diff (world_dofs s) (last_terminal_pos s) (take (world_dofs s) target) st)
               (write_diff (world_dofs s) (last_terminal_vel s) (drop (world_dofs s) target))
         | None \<Rightarrow> Inr st))"

definition g_knot :: "trajectory \<Rightarrow> nat \<Rightarrow> nat \<times> vec \<Rightarrow> (nat \<times> vec) res" where
  "g_knot s i st =
     bindR (get_item (last_preknot_poses s) i) (\<lambda>pp.
     bindR (get_item (knot_poses s) i) (\<lambda>kp.
     bindR (write_diff (world_dofs s) pp (data kp) st) (\<lambda>st1.
     bindR (get_item (last_preknot_vels s) i) (\<lambda>pv.
     bindR (get_item (knot_vels s) i) (\<lambda>kv.
       write_diff (world_dofs s) pv (data kv) st1)))))"

fun g_knots :: "trajectory \<Rightarrow> nat list \<Rightarrow> nat \<times> vec \<Rightarrow> (nat \<times> vec) res" where
  "g_knots s [] st = Inr st"
| "g_knots s (i # shots) st =
     (if i = 0 then g_knots s shots st else bindR (g_knot s i st) (g_knots s shots))"

definition eval_g :: "fl list \<Rightarrow> vec \<Rightarrow> trajectory \<Rightarrow> vec res \<times> trajectory" where
  "eval_g x out s =
     (if isnan_any x then (Inl AssertionError, fed_nans ''g(x) was fed NaNs!'' x s)
      else
        (case ensure_fresh_rollout (map fin_of x) s of
           (Inl e, s1) \<Rightarrow> (Inl e, s1)
         | (Inr u, s1) \<Rightarrow>
            if int (length out) \<noteq> get_constraint_dim s1 then (Inl AssertionError, s1)
            else
              (bindR (g_terminal s1 (0, out)) (\<lambda>st.
               bindR (g_knots s1 [0..<nat (num_shots s1)] st) (\<lambda>(cursor, out').
                 if cursor \<noteq> length out' then Inl AssertionError else Inr out')), s1)))"

subsection \<open>The constraint Jacobian\<close>

text \<open>
  \<^verbatim>\<open>for row in range(n): for col in range(m)\<close>, as the list of the index pairs visited.
\<close>

definition row_major :: "nat \<Rightarrow> nat \<Rightarrow> (nat \<times> nat) list" where
  "row_major n m = concat (map (\<lambda>r. map (\<lambda>c. (r, c)) [0..<m]) [0..<n])"

text \<open>\<^verbatim>\<open>out[cursor] = M[row][col]; cursor += 1\<close> over a list of index pairs.\<close>

fun emit_block :: "mat \<Rightarrow> (nat \<times> nat) list \<Rightarrow> nat \<times> vec \<Rightarrow> (nat \<times> vec) res" where
  "emit_block M [] st = Inr st"
| "emit_block M ((row, col) # rest) (cursor, out) =
     bindR (mat_at M row col) (\<lambda>v.
     bindR (set_item out cursor v) (\<lambda>out'. emit_block M rest (cursor + 1, out')))"

text \<open>The inner function \<^verbatim>\<open>insertNegativeIdentity\<close> of \<^verbatim>\<open>eval_jac_g\<close>.\<close>

fun values_negative_identity :: "nat \<Rightarrow> nat \<times> vec \<Rightarrow> (nat \<times> vec) res" where
  "values_negative_identity 0 st = Inr st"
| "values_negative_identity (Suc k) (cursor, out) =
     bindR (set_item out cursor (- 1)) (\<lambda>out'. values_negative_identity k (cursor + 1, out'))"

text \<open>
  One round of the backward loop of \<^verbatim>\<open>insertFullJacobian\<close>. The four accumulators are
  \<open>(posend_posnext, posend_velnext, velend_posnext, velend_velnext)\<close>; they are assigned
  one after the other, in the order of the source, so the third and the fourth assignment
  read the values the first and the second have just stored.
\<close>

definition jac_round ::
  "trajectory \<Rightarrow> int \<Rightarrow> (mat \<times> mat \<times> mat \<times> mat) \<times> nat \<times> vec
     \<Rightarrow> ((mat \<times> mat \<times> mat \<times> mat) \<times> nat \<times> vec) res" where
  "jac_round s i = (\<lambda>((posend_posnext, posend_velnext, velend_posnext, velend_velnext), st).
     bindR (py_get (snapshots s) i) (\<lambda>sn.
       case sn of
         None \<Rightarrow> Inl AttributeError
       | Some snapshot \<Rightarrow>
          (let d = world_dofs s;
               posnext_velnext = getTimeStep (world s);
               velnext_pos = pos_vel snapshot;
               velnext_vel = vel_vel snapshot;
               velnext_force = force_vel snapshot;
               posnext_pos = pos_pos snapshot;
               posnext_vel = mat_scale posnext_velnext velnext_vel;
               posnext_force = mat_scale posnext_velnext velnext_force;
               posend_force = mat_add (matmul posend_posnext posnext_force)
                                      (matmul posend_velnext velnext_force);
               velend_force = mat_add (matmul velend_posnext posnext_force)
                                      (matmul velend_velnext velnext_force)
           in bindR (emit_block posend_force (row_major d d) st) (\<lambda>st1.
              bindR (emit_block velend_force (row_major d d) st1) (\<lambda>st2.
                let posend_posnext' = mat_add (matmul posend_posnext posnext_pos)
                                              (matmul posend_velnext velnext_pos);
                    velend_posnext' = mat_add (matmul velend_posnext posnext_pos)
                                              (matmul velend_velnext velnext_pos);
                    posend_velnext' = mat_add (matmul posend_posnext' posnext_vel)
                                              (matmul posend_velnext velnext_vel);
                    velend_velnext' = mat_add (matmul velend_posnext' posnext_vel)
                                              (matmul velend_velnext velnext_vel)
                in Inr ((posend_posnext', posend_velnext', velend_posnext', velend_velnext'),
                        st2))))))"

fun jac_rounds ::
  "trajectory \<Rightarrow> int list \<Rightarrow> (mat \<times> mat \<times> mat \<times> mat) \<times> nat \<times> vec
     \<Rightarrow> ((mat \<times> mat \<times> mat \<times> mat) \<times> nat \<times> vec) res" where
  "jac_rounds s [] acc = Inr acc"
| "jac_rounds s (i # rest) acc = bindR (jac_round s i acc) (jac_rounds s rest)"

text \<open>The inner function \<^verbatim>\<open>insertFullJacobian(last_knot_index, cursor, includePhasePhase)\<close>.\<close>

definition values_full_jacobian ::
  "trajectory \<Rightarrow> int \<Rightarrow> bool \<Rightarrow> nat \<times> vec \<Rightarrow> (nat \<times> vec) res" where
  "values_full_jacobian s last_knot_index includePhasePhase st =
     (let d = world_dofs s;
          start_index = last_knot_index * shooting_length s;
          end_index_exclusive = (last_knot_index + 1) * shooting_length s
      in bindR (jac_rounds s (rev [start_index..end_index_exclusive - 1])
                  ((mat_identity d, mat_zeros d d, mat_zeros d d, mat_identity d), st))
           (\<lambda>((posend_posnext, posend_velnext, velend_posnext, velend_velnext), st1).
              if includePhasePhase then
                bindR (emit_block (mat_concat_cols posend_posnext posend_velnext)
                         (row_major d (d * 2)) st1)
                  (emit_block (mat_concat_cols velend_posnext velend_velnext)
                         (row_major d (d * 2)))
              else Inr st1))"

fun values_knots :: "trajectory \<Rightarrow> nat list \<Rightarrow> nat \<times> vec \<Rightarrow> (nat \<times> vec) res" where
  "values_knots s [] st = Inr st"
| "values_knots s (i # shots) st =
     (if i = 0 then values_knots s shots st
      else
        bindR (values_full_jacobian s (int i - 1) (i > 1 \<or> tune_starting_point s) st) (\<lambda>st1.
        bindR (values_negative_identity (world_dofs s * 2) st1) (values_knots s shots)))"

text \<open>Everything \<^verbatim>\<open>eval_jac_g\<close> writes, before it compares with the sparsity pattern.\<close>

definition jac_g_values :: "trajectory \<Rightarrow> vec \<Rightarrow> (nat \<times> vec) res" where
  "jac_g_values s out =
     bindR (if enforce_loop s \<or> enforce_final_state s \<noteq> None then
              bindR (values_full_jacobian s (num_shots s - 1) True (0, out)) (\<lambda>st.
                if tune_starting_point s \<and> enforce_loop s
                then values_negative_identity (world_dofs s * 2) st else Inr st)
            else Inr (0, out))
       (values_knots s [0..<nat (num_shots s)])"

subsection \<open>The sparsity pattern\<close>

text \<open>
  \<^verbatim>\<open>row.append(rowTopLeft + r); col.append(colTopLeft + c)\<close> over a list of index pairs;
  adding to \<^verbatim>\<open>None\<close> is a \<^verbatim>\<open>TypeError\<close>. The two lists \<^verbatim>\<open>row\<close> and \<^verbatim>\<open>col\<close> always grow
  together and are kept as one list of pairs.
\<close>

definition add_opt :: "int option \<Rightarrow> int \<Rightarrow> int res" where
  "add_opt a b = (case a of None \<Rightarrow> Inl TypeError | Some v \<Rightarrow> Inr (v + b))"

fun index_pairs :: "int option \<Rightarrow> int option \<Rightarrow> (nat \<times> nat) list \<Rightarrow> (int \<times> int) list res" where
  "index_pairs rowTopLeft colTopLeft [] = Inr []"
| "index_pairs rowTopLeft colTopLeft ((r, c) # rest) =
     bindR (add_opt rowTopLeft (int r)) (\<lambda>row.
     bindR (add_opt colTopLeft (int c)) (\<lambda>col.
     bindR (index_pairs rowTopLeft colTopLeft rest) (\<lambda>ps. Inr ((row, col) # ps))))"

definition insertNegativeIdentity :: "trajectory \<Rightarrow> int option \<Rightarrow> int option \<Rightarrow> (int \<times> int) list res" where
  "insertNegativeIdentity s rowTopLeft colTopLeft =
     index_pairs rowTopLeft colTopLeft (map (\<lambda>i. (i, i)) [0..<world_dofs s * 2])"

definition insertPhasePhaseJacobian :: "trajectory \<Rightarrow> int option \<Rightarrow> int option \<Rightarrow> (int \<times> int) list res" where
  "insertPhasePhaseJacobian s rowTopLeft colTopLeft =
     index_pairs rowTopLeft colTopLeft (row_major (world_dofs s * 2) (world_dofs s * 2))"

definition insertTorquePhaseJacobian :: "trajectory \<Rightarrow> int option \<Rightarrow> int option \<Rightarrow> (int \<times> int) list res" where
  "insertTorquePhaseJacobian s rowTopLeft colTopLeft =
     index_pairs rowTopLeft colTopLeft (row_major (world_dofs s * 2) (world_dofs s))"

text \<open>
  The loop that collects \<^verbatim>\<open>torque_jac_locations\<close>: at most \<^verbatim>\<open>shooting_length\<close> columns,
  left as soon as the cursor reaches the flat dimension \<open>n\<close>.
\<close>

fun torque_jac_locations :: "nat \<Rightarrow> int \<Rightarrow> int \<Rightarrow> int \<Rightarrow> int list" where
  "torque_jac_locations 0 d n cursor = []"
| "torque_jac_locations (Suc k) d n cursor =
     cursor # (if cursor + d \<ge> n then [] else torque_jac_locations k d n (cursor + d))"

fun torque_blocks :: "trajectory \<Rightarrow> int option \<Rightarrow> int list \<Rightarrow> (int \<times> int) list res" where
  "torque_blocks s rowTopLeft [] = Inr []"
| "torque_blocks s rowTopLeft (cursor # rest) =
     bindR (insertTorquePhaseJacobian s rowTopLeft (Some cursor)) (\<lambda>ps.
     bindR (torque_blocks s rowTopLeft rest) (\<lambda>qs. Inr (ps @ qs)))"

definition insertFullJacobian ::
  "trajectory \<Rightarrow> int \<Rightarrow> int option \<Rightarrow> int option \<Rightarrow> bool \<Rightarrow> (int \<times> int) list res" where
  "insertFullJacobian s n rowTopLeft colTopLeft includePhasePhase =
     (case colTopLeft of
        None \<Rightarrow>
          (if includePhasePhase \<or> shooting_length s \<ge> 1 then Inl TypeError else Inr [])
      | Some c0 \<Rightarrow>
          (let cursor = (if includePhasePhase then c0 + int (world_dofs s) * 2 else c0);
               locations = rev (torque_jac_locations (nat (shooting_length s))
                                  (int (world_dofs s)) n cursor)
           in bindR (torque_blocks s rowTopLeft locations) (\<lambda>ps.
                if includePhasePhase then
                  bindR (insertPhasePhaseJacobian s rowTopLeft colTopLeft) (\<lambda>qs. Inr (ps @ qs))
                else Inr ps)))"

fun pattern_knots ::
  "trajectory \<Rightarrow> int \<Rightarrow> int option list \<Rightarrow> int option list \<Rightarrow> nat list \<Rightarrow> (int \<times> int) list res" where
  "pattern_knots s n knot_x_offsets knot_g_offsets [] = Inr []"
| "pattern_knots s n knot_x_offsets knot_g_offsets (i # shots) =
     (if i = 0 then pattern_knots s n knot_x_offsets knot_g_offsets shots
      else
        bindR (get_item knot_x_offsets (i - 1)) (\<lambda>x_prev.
        bindR (get_item knot_g_offsets i) (\<lambda>g_i.
        bindR (case x_prev of
                 None \<Rightarrow> insertFullJacobian s n g_i (Some 0) False
               | Some c \<Rightarrow> insertFullJacobian s n g_i x_prev True) (\<lambda>ps.
        bindR (get_item knot_x_offsets i) (\<lambda>x_i.
        bindR (insertNegativeIdentity s g_i x_i) (\<lambda>qs.
        bindR (pattern_knots s n knot_x_offsets knot_g_offsets shots) (\<lambda>rs.
          Inr (ps @ qs @ rs))))))))"

definition pattern_terminal :: "trajectory \<Rightarrow> int \<Rightarrow> int option list \<Rightarrow> (int \<times> int) list res" where
  "pattern_terminal s n knot_x_offsets =
     (if enforce_loop s \<or> enforce_final_state s \<noteq> None then
        bindR (py_get knot_x_offsets (int (length knot_x_offsets) - 1)) (\<lambda>x_last.
        bindR (insertFullJacobian s n (Some 0) x_last True) (\<lambda>ps.
        bindR (py_get knot_x_offsets 0) (\<lambda>x_0.
          case x_0 of
            None \<Rightarrow> if tune_starting_point s then Inl AssertionError else Inr ps
          | Some c \<Rightarrow>
              if enforce_loop s
              then bindR (insertNegativeIdentity s (Some 0) x_0) (\<lambda>qs. Inr (ps @ qs))
              else Inr ps)))
      else Inr [])"

definition get_jac_g_sparsity_indices :: "trajectory \<Rightarrow> (int list \<times> int list) res" where
  "get_jac_g_sparsity_indices s =
     bindR (get_flat_problem_dim s) (\<lambda>n.
       let knot_x_offsets = get_knot_x_offsets s;
           knot_g_offsets = get_knot_g_offsets s
       in bindR (pattern_terminal s n knot_x_offsets) (\<lambda>ps.
          bindR (pattern_knots s n knot_x_offsets knot_g_offsets [0..<nat (num_shots s)]) (\<lambda>qs.
            Inr (map fst (ps @ qs), map snd (ps @ qs)))))"

definition eval_jac_g :: "fl list \<Rightarrow> vec \<Rightarrow> trajectory \<Rightarrow> vec res \<times> trajectory" where
  "eval_jac_g x out s =
     (if isnan_any x then (Inl AssertionError, fed_nans ''jac g(x) was fed NaNs!'' x s)
      else
        (case ensure_fresh_rollout (map fin_of x) s of
           (Inl e, s1) \<Rightarrow> (Inl e, s1)
         | (Inr u, s1) \<Rightarrow>
            (bindR (jac_g_values s1 out) (\<lambda>(cursor, out').
             bindR (get_jac_g_sparsity_indices s1) (\<lambda>(row, col).
               if length out' \<noteq> length row then Inl AssertionError
               else if cursor \<noteq> length row then Inl AssertionError
               else Inr out')), s1)))"

subsection \<open>The cross-check utilities\<close>

text \<open>
  \<^verbatim>\<open>_test_get_dense_jac_g\<close> spreads the sparse values over a dense \<open>m \<times> n\<close> matrix, and
  \<^verbatim>\<open>_test_brute_force_jac_g\<close> differentiates \<^verbatim>\<open>eval_g\<close> by finite differences with
  \<^verbatim>\<open>eps = 1e-8\<close>; \<^verbatim>\<open>np.zeros\<close> refuses a negative size and \<^verbatim>\<open>np.stack\<close> an empty list.
\<close>

fun dense_fill :: "int list \<Rightarrow> int list \<Rightarrow> vec \<Rightarrow> mat \<Rightarrow> mat res" where
  "dense_fill (r # rows) (c # cols) (v # vals) dense =
     bindR (py_get dense r) (\<lambda>line.
     bindR (py_set line c v) (\<lambda>line'.
     bindR (py_set dense r line') (dense_fill rows cols vals)))"
| "dense_fill rows cols [] dense = Inr dense"
| "dense_fill rows cols vals dense = Inl IndexError"

definition test_get_dense_jac_g :: "fl list \<Rightarrow> trajectory \<Rightarrow> mat res \<times> trajectory" where
  "test_get_dense_jac_g x s =
     (case bindR (get_flat_problem_dim s) (\<lambda>n.
             if n < 0 \<or> get_constraint_dim s < 0 then Inl ValueError
             else bindR (get_jac_g_sparsity_indices s) (\<lambda>p. Inr (n, p))) of
        Inl e \<Rightarrow> (Inl e, s)
      | Inr (n, rows, cols) \<Rightarrow>
         (case eval_jac_g x (zeros (length rows)) s of
            (Inl e, s1) \<Rightarrow> (Inl e, s1)
          | (Inr vals, s1) \<Rightarrow>
             (dense_fill rows cols vals (mat_zeros (nat (get_constraint_dim s)) (nat n)), s1)))"

definition eps_fd :: real where
  "eps_fd = 1 / 10 ^ 8"

fun fl_add :: "fl \<Rightarrow> real \<Rightarrow> fl" where
  "fl_add (Fin r) e = Fin (r + e)"
| "fl_add NaN e = NaN"

fun brute_force_cols ::
  "fl list \<Rightarrow> vec \<Rightarrow> nat \<Rightarrow> nat list \<Rightarrow> trajectory \<Rightarrow> mat res \<times> trajectory" where
  "brute_force_cols x g m [] s = (Inr [], s)"
| "brute_force_cols x g m (i # rest) s =
     (case set_item x i (fl_add (x ! i) eps_fd) of
        Inl e \<Rightarrow> (Inl e, s)
      | Inr x_prime \<Rightarrow>
         (case eval_g x_prime (zeros m) s of
            (Inl e, s1) \<Rightarrow> (Inl e, s1)
          | (Inr g_prime, s1) \<Rightarrow>
             (case brute_force_cols x g m rest s1 of
                (Inl e, s2) \<Rightarrow> (Inl e, s2)
              | (Inr cols, s2) \<Rightarrow> (Inr (map2 (\<lambda>a b. (a - b) / eps_fd) g_prime g # cols), s2))))"

definition test_brute_force_jac_g :: "fl list \<Rightarrow> trajectory \<Rightarrow> mat res \<times> trajectory" where
  "test_brute_force_jac_g x s =
     (case get_flat_problem_dim s of
        Inl e \<Rightarrow> (Inl e, s)
      | Inr n \<Rightarrow>
         if get_constraint_dim s < 0 then (Inl ValueError, s)
         else
           (let m = nat (get_constraint_dim s) in
            case eval_g x (zeros m) s of
              (Inl e, s1) \<Rightarrow> (Inl e, s1)
            | (Inr g, s1) \<Rightarrow>
               (case brute_force_cols x g m [0..<nat n] s1 of
                  (Inl e, s2) \<Rightarrow> (Inl e, s2)
                | (Inr cols, s2) \<Rightarrow>
                   (case unflatten (map fin_of x) s2 of
                      (Inl e, s3) \<Rightarrow> (Inl e, s3)
                    | (Inr u, s3) \<Rightarrow>
                       (if cols = [] then Inl ValueError
                        else Inr (map (\<lambda>j. map (\<lambda>col. col ! j) cols) [0..<m]), s3)))))"

subsection \<open>The solver adapter\<close>

text \<open>
  The four closures \<^verbatim>\<open>ipopt\<close> hands to the solver: \<^verbatim>\<open>try: return self.eval(...)\<close>,
  \<^verbatim>\<open>except Exception as e:\<close> two prints, and then the end of the function, which returns
  \<^verbatim>\<open>None\<close>. Every exception of the model is a subclass of \<^verbatim>\<open>Exception\<close>.
\<close>

definition guarded :: "string \<Rightarrow> 'a res \<times> trajectory \<Rightarrow> 'a option \<times> trajectory" where
  "guarded what r =
     (case r of
        (Inr v, s) \<Rightarrow> (Some v, s)
      | (Inl e, s) \<Rightarrow> (None, s\<lparr>stdout := stdout s @ [Line what, Exc e]\<rparr>))"

definition ipopt_eval_f :: "fl list \<Rightarrow> trajectory \<Rightarrow> real option \<times> trajectory" where
  "ipopt_eval_f x s = guarded ''ERROR when IPOPT was evaluating our f(x)!'' (eval_f x s)"

definition ipopt_eval_grad_f ::
  "(trajectory \<Rightarrow> tensor_ref \<Rightarrow> vec option) \<Rightarrow> fl list \<Rightarrow> vec \<Rightarrow> trajectory \<Rightarrow> vec option \<times> trajectory" where
  "ipopt_eval_grad_f ag x out s =
     guarded ''ERROR when IPOPT was evaluating our gradient of f(x)!'' (eval_grad_f ag x out s)"

definition ipopt_eval_g :: "fl list \<Rightarrow> vec \<Rightarrow> trajectory \<Rightarrow> vec option \<times> trajectory" where
  "ipopt_eval_g x out s = guarded ''ERROR when IPOPT was evaluating our g(x)!'' (eval_g x out s)"

definition ipopt_eval_jac_g :: "fl list \<Rightarrow> vec \<Rightarrow> trajectory \<Rightarrow> vec option \<times> trajectory" where
  "ipopt_eval_jac_g x out s =
     guarded ''ERROR when IPOPT was evaluating our Jacobian of g(x)!'' (eval_jac_g x out s)"

subsection \<open>Stand-ins for the external collaborators\<close>

text \<open>
  A linear forward-dynamics step with semi-implicit Euler integration,
  \<open>v' = Vp p + Vv v + Vf f\<close> and \<open>p' = p + dt v'\<close>, whose snapshot holds its exact
  Jacobians: \<open>\<partial>v'/\<partial>p = Vp\<close>, \<open>\<partial>v'/\<partial>v = Vv\<close>, \<open>\<partial>v'/\<partial>f = Vf\<close> and \<open>\<partial>p'/\<partial>p = I + dt Vp\<close>
  (and \<open>\<partial>p'/\<partial>v = dt Vv\<close>, \<open>\<partial>p'/\<partial>f = dt Vf\<close>, which the assembler derives by itself).
\<close>

definition mat_vec :: "mat \<Rightarrow> vec \<Rightarrow> vec" where
  "mat_vec A v = map (\<lambda>row. sum_list (map2 (*) row v)) A"

definition euler_step ::
  "real \<Rightarrow> mat \<Rightarrow> mat \<Rightarrow> mat \<Rightarrow> vec \<Rightarrow> vec \<Rightarrow> vec \<Rightarrow> vec \<times> vec \<times> snapshot" where
  "euler_step dt Vp Vv Vf pos vel t =
     (let next_vel = map2 (+) (map2 (+) (mat_vec Vp pos) (mat_vec Vv vel)) (mat_vec Vf t);
          next_pos = map2 (+) pos (map ((*) dt) next_vel)
      in (next_pos, next_vel,
          \<lparr>pos_pos = mat_add (mat_identity (length pos)) (mat_scale dt Vp),
           pos_vel = Vp, vel_vel = Vv, force_vel = Vf\<rparr>))"

text \<open>
  A world with one degree of freedom, time step 1 and the step \<open>v' = p + v + f\<close>,
  \<open>p' = p + v'\<close>, at rest at the origin; costs that are zero; an autodiff runtime that
  reports the gradient \<open>[1]\<close> for every leaf.
\<close>

definition spring_world :: world where
  "spring_world =
     \<lparr>getNumDofs = 1, getTimeStep = 1, getPositions = [0], getVelocities = [0],
      getPositionUpperLimits = [10], getPositionLowerLimits = [- 10],
      getVelocityUpperLimits = [10], getVelocityLowerLimits = [- 10],
      getForceUpperLimits = [10], getForceLowerLimits = [- 10],
      dart_layer = euler_step 1 [[1]] [[1]] [[1]]\<rparr>"

definition no_step_loss :: "vec \<Rightarrow> vec \<Rightarrow> vec \<Rightarrow> real" where
  "no_step_loss p v t = 0"

definition no_final_loss :: "vec \<Rightarrow> vec \<Rightarrow> real" where
  "no_final_loss p v = 0"

definition unit_grad :: "trajectory \<Rightarrow> tensor_ref \<Rightarrow> vec option" where
  "unit_grad s r = Some [1]"

text \<open>
  A test double with two degrees of freedom, at rest at the origin: its step is
  \<open>v' = v + f\<close>, \<open>p' = p + v'\<close>, and its snapshot keeps, in the place of the sensitivity of
  the velocity to the force, the control vector the step was called with. With it goes
  the running cost \<open>|f|\<^sup>2\<close>.
\<close>

definition recording_step :: "vec \<Rightarrow> vec \<Rightarrow> vec \<Rightarrow> vec \<times> vec \<times> snapshot" where
  "recording_step pos vel t =
     (let next_vel = map2 (+) vel t;
          next_pos = map2 (+) pos next_vel
      in (next_pos, next_vel, \<lparr>pos_pos = [], pos_vel = [], vel_vel = [], force_vel = [t]\<rparr>))"

definition two_dof_world :: world where
  "two_dof_world =
     \<lparr>getNumDofs = 2, getTimeStep = 1, getPositions = [0, 0], getVelocities = [0, 0],
      getPositionUpperLimits = [10, 10], getPositionLowerLimits = [- 10, - 10],
      getVelocityUpperLimits = [10, 10], getVelocityLowerLimits = [- 10, - 10],
      getForceUpperLimits = [10, 10], getForceLowerLimits = [- 10, - 10],
      dart_layer = recording_step\<rparr>"

definition effort_loss :: "vec \<Rightarrow> vec \<Rightarrow> vec \<Rightarrow> real" where
  "effort_loss p v t = sum_list (map (\<lambda>x. x * x) t)"

subsection \<open>The residual vector as the specification describes it\<close>





subsection \<open>Valid configurations and the layout of the flat vector\<close>

text \<open>
  A configuration is valid when the shooting length is positive, the shots fit into the
  torque list and every shot has its knot; this is what the constructor builds from
  \<open>steps \<ge> 1\<close> and \<open>shooting_length \<ge> 1\<close>, and no method changes it. \<open>cfg_eq\<close> relates
  two objects that differ at most in the values they store, and \<open>slots\<close> counts the
  vectors the loops of \<^verbatim>\<open>flatten\<close> and \<^verbatim>\<open>unflatten\<close> visit.
\<close>

definition valid_config :: "trajectory \<Rightarrow> bool" where
  "valid_config s =
     (1 \<le> shooting_length s
      \<and> num_shots s * shooting_length s \<le> int (length (torques s))
      \<and> nat (num_shots s) \<le> length (knot_poses s)
      \<and> nat (num_shots s) \<le> length (knot_vels s))"

definition cfg_eq :: "trajectory \<Rightarrow> trajectory \<Rightarrow> bool" where
  "cfg_eq s t =
     (world t = world s \<and> shooting_length t = shooting_length s
      \<and> steps t = steps s \<and> num_shots t = num_shots s
      \<and> tune_starting_point t = tune_starting_point s
      \<and> length (torques t) = length (torques s)
      \<and> length (knot_poses t) = length (knot_poses s)
      \<and> length (knot_vels t) = length (knot_vels s))"

fun slots :: "trajectory \<Rightarrow> nat list \<Rightarrow> nat \<Rightarrow> nat" where
  "slots s [] tc = 0"
| "slots s (i # shots) tc =
     (if i > 0 \<or> tune_starting_point s then 2 else 0) + shot_length s tc
     + slots s shots (tc + shot_length s tc)"

subsection \<open>Controls with the disabled actuators at zero\<close>

text \<open>
  \<open>zero_at disabled t\<close>: the control \<open>t\<close> has the component \<open>j\<close> equal to zero for every
  index \<open>j\<close> of the list, read as Python reads an index. \<open>with_externals\<close> is the object
  with another forward-dynamics step and another running cost in the place of its own.
\<close>

definition zero_at :: "int list \<Rightarrow> vec \<Rightarrow> bool" where
  "zero_at disabled t = (\<forall>j\<in>set disabled. py_get t j = Inr 0)"

definition with_externals ::
  "(vec \<Rightarrow> vec \<Rightarrow> vec \<Rightarrow> vec \<times> vec \<times> snapshot) \<Rightarrow> (vec \<Rightarrow> vec \<Rightarrow> vec \<Rightarrow> real)
     \<Rightarrow> trajectory \<Rightarrow> trajectory" where
  "with_externals dl cost s = s\<lparr>world := (world s)\<lparr>dart_layer := dl\<rparr>, step_loss := cost\<rparr>"

subsection \<open>Well-formed objects\<close>



section \<open>Properties\<close>

subsection \<open>Evaluation helpers\<close>

lemma spring_dofs: "getNumDofs spring_world = 1"
  by (simp add: spring_world_def)

lemmas construct_eval =
  construct_def bindR_def py_floordiv_def get_flat_problem_dim_def py_mod_def Let_def spring_dofs

lemma upt_small:
  "[0..<1] = [0]" "[0..<2] = [0, 1]" "[0..<3] = [0, 1, 2]" "[0..<4] = [0, 1, 2, 3]"
  "[0..<6] = [0, 1, 2, 3, 4, 5]"
  by (simp_all add: upt_conv_Cons)

lemma upto_small: "[0..1::int] = [0, 1]" "[2..3::int] = [2, 3]"
  by (simp_all add: upto_rec1)

lemmas eval_simps = construct_eval upt_small upto_small
  isnan_any_def zeros_def slice_def set_slice_def get_item_def set_item_def
  py_index_def py_get_def py_set_def broadcast2_def
  mat_identity_def mat_zeros_def mat_add_def mat_scale_def mat_col_def matmul_def
  mat_concat_cols_def mat_at_def
  get_constraint_dim_def fresh_tensor_def tensors_def
  grad_or_zeros_def flat_knot_pose_def flat_knot_vel_def flat_torque_def shot_length_def
  flatten_knot_def flatten_def
  set_data_def unflatten_knot_def unflatten_def get_knot_x_offsets_def get_knot_g_offsets_def
  knot_barrier_def unroll_knot_def masked_torque_def loop_barrier_def final_barrier_def unroll_def
  ensure_fresh_rollout_def fed_nans_def eval_f_def zero_grad_def zero_grads_def accumulate_def
  leaf_grad_def backward_def eval_grad_f_def write_diff_def g_terminal_def g_knot_def eval_g_def
  row_major_def jac_round_def values_full_jacobian_def jac_g_values_def add_opt_def
  insertNegativeIdentity_def insertPhasePhaseJacobian_def insertTorquePhaseJacobian_def
  insertFullJacobian_def pattern_terminal_def get_jac_g_sparsity_indices_def eval_jac_g_def
  mat_vec_def euler_step_def spring_world_def no_step_loss_def no_final_loss_def unit_grad_def

lemma eval_f_nan:
  "NaN \<in> set x \<Longrightarrow> eval_f x s = (Inl AssertionError, fed_nans ''f(x) was fed NaNs!'' x s)"
  by (simp add: eval_f_def isnan_any_def)

lemma eval_grad_f_nan:
  "NaN \<in> set x \<Longrightarrow>
   eval_grad_f ag x out s = (Inl AssertionError, fed_nans ''grad f(x) was fed NaNs!'' x s)"
  by (simp add: eval_grad_f_def isnan_any_def)

lemma eval_g_nan:
  "NaN \<in> set x \<Longrightarrow> eval_g x out s = (Inl AssertionError, fed_nans ''g(x) was fed NaNs!'' x s)"
  by (simp add: eval_g_def isnan_any_def)

lemma eval_jac_g_nan:
  "NaN \<in> set x \<Longrightarrow>
   eval_jac_g x out s = (Inl AssertionError, fed_nans ''jac g(x) was fed NaNs!'' x s)"
  by (simp add: eval_jac_g_def isnan_any_def)

lemma guarded_Inl:
  "guarded what (Inl e, s) = (None, s\<lparr>stdout := stdout s @ [Line what, Exc e]\<rparr>)"
  by (simp add: guarded_def)

subsection \<open>The number of shots\<close>

text \<open>
  C10. The claim: for \<open>steps \<ge> 1\<close> the constructor clamps the shooting length to
  \<open>min shooting_length steps\<close> before it computes \<open>num_shots\<close>, so that \<open>num_shots \<ge> 1\<close>
  and the knot, pre-knot and snapshot lists are not empty. The code stores the clamped
  length but divides by the length it was given: with 5 steps and a shooting length of 10
  the stored length is 5, \<open>num_shots\<close> is 0 and both pre-knot lists are empty (start
  tunable); with a fixed start the flat dimension is negative and the constructor raises.
\<close>

theorem num_shots_zero_when_length_exceeds_steps:
  "(case construct spring_world no_step_loss no_final_loss 5 10 True False None [] of
      Inl e \<Rightarrow> None
    | Inr s \<Rightarrow> Some (shooting_length s, num_shots s, last_preknot_poses s, last_preknot_vels s))
   = Some (5, 0, [], [])
   \<and> construct spring_world no_step_loss no_final_loss 5 10 False False None [] = Inl ValueError"
  by (simp add: construct_eval)

subsection \<open>The flat dimension\<close>

text \<open>
  C3. The claim: for every combination of the parameters, also when \<open>steps\<close> is not a
  multiple of \<open>shooting_length\<close>, \<^verbatim>\<open>get_flat_problem_dim()\<close> is the closed-form sum over the
  segments and the number of entries \<^verbatim>\<open>flatten\<close> and \<^verbatim>\<open>unflatten\<close> traverse. With 3 steps
  and a shooting length of 2 (one degree of freedom, tunable start) there is one shot,
  \<^verbatim>\<open>get_flat_problem_dim()\<close> is 3, and the loops of \<^verbatim>\<open>flatten\<close> end with the flat cursor at 4
  and the torque cursor at 2: the step \<^verbatim>\<open>min(shooting_length, len(torques) - cursor)\<close> never
  shortens a shot, while the dimension subtracts \<open>steps mod shooting_length\<close> steps. On the
  same object every rollout raises \<^verbatim>\<open>IndexError\<close>, at the knot index \<open>num_shots\<close>.
\<close>

theorem flat_dim_differs_from_traversal:
  "(case construct spring_world no_step_loss no_final_loss 3 2 True False None [] of
      Inl e \<Rightarrow> None
    | Inr s \<Rightarrow> Some (num_shots s, get_flat_problem_dim s,
                     flatten_shots s ''state'' [0..<nat (num_shots s)] (0, 0, zeros 3),
                     fst (unroll True s)))
   = Some (1, Inr 3, Inr (4, 2, [0, 0, 0]), Inl IndexError)"
  by (simp add: eval_simps numeral_2_eq_2)

subsection \<open>The sparsity pattern against the values\<close>

text \<open>
  C2. The claim: for every configuration the pattern of \<^verbatim>\<open>get_jac_g_sparsity_indices\<close> and
  the values of \<^verbatim>\<open>eval_jac_g\<close> have the same length and order. With a single shot, a fixed
  start and loop closure (2 steps, shooting length 2, one degree of freedom) the offset
  table is \<open>[None]\<close>, the pattern adds the width of the phase block to \<^verbatim>\<open>None\<close> and raises
  \<^verbatim>\<open>TypeError\<close>; \<^verbatim>\<open>eval_jac_g\<close> writes its eight values and then raises the same error.
\<close>

theorem sparsity_pattern_fails_for_single_fixed_shot:
  "(case construct spring_world no_step_loss no_final_loss 2 2 False True None [] of
      Inl e \<Rightarrow> None
    | Inr s \<Rightarrow> Some (get_knot_x_offsets s, get_jac_g_sparsity_indices s,
                     fst (eval_jac_g [Fin 0, Fin 0] (zeros 8) s)))
   = Some ([None], Inl TypeError, Inl TypeError)"
  by (simp add: eval_simps numeral_2_eq_2)

subsection \<open>The Jacobian against finite differences\<close>

text \<open>
  C1. The claim: with a linear forward-dynamics stand-in the values of \<^verbatim>\<open>eval_jac_g\<close> equal
  the finite-difference Jacobian of \<^verbatim>\<open>eval_g\<close> at the positions of the sparsity pattern, to
  within \<open>1e-5\<close>. For the one-dimensional world \<open>v' = p + v + f\<close>, \<open>p' = p + v'\<close> with 4 steps
  in 2 shots and a fixed start, at \<open>x = 0\<close>: the pattern is
  \<open>(0,1), (1,1), (0,0), (1,0), (0,2), (1,3)\<close>, the values are \<open>1, 1, 4, 3, -1, -1\<close>, and the
  finite-difference Jacobian has \<open>3\<close> at \<open>(0,0)\<close> and \<open>2\<close> at \<open>(1,0)\<close>. The two entries
  for the first torque of the shot are off by one.
\<close>

theorem jacobian_differs_from_finite_differences:
  "(case construct spring_world no_step_loss no_final_loss 4 2 False False None [] of
      Inl e \<Rightarrow> None
    | Inr s \<Rightarrow> Some (get_jac_g_sparsity_indices s,
                     fst (eval_jac_g (replicate 6 (Fin 0)) (zeros 6) s),
                     fst (test_brute_force_jac_g (replicate 6 (Fin 0)) s)))
   = Some (Inr ([0, 1, 0, 1, 0, 1], [1, 1, 0, 0, 2, 3]),
           Inr [1, 1, 4, 3, - 1, - 1],
           Inr [[3, 1, - 1, 0, 0, 0], [2, 1, 0, - 1, 0, 0]])"
  by (simp add: eval_simps numeral_2_eq_2 numeral_eq_Suc test_brute_force_jac_g_def eps_fd_def)

subsection \<open>NaN in the input of a callback\<close>

text \<open>
  C8. Each of \<^verbatim>\<open>eval_f\<close>, \<^verbatim>\<open>eval_grad_f\<close>, \<^verbatim>\<open>eval_g\<close> and \<^verbatim>\<open>eval_jac_g\<close>, given a vector
  \<open>x\<close> with a NaN entry, prints its diagnostic and the vector and raises
  \<^verbatim>\<open>AssertionError\<close>; it returns no value, and the object is as before (no rollout has run):
  only the two lines of output were added.
\<close>

theorem nan_input_aborts_every_callback:
  assumes "NaN \<in> set x"
  shows "eval_f x s = (Inl AssertionError, fed_nans ''f(x) was fed NaNs!'' x s)
       \<and> eval_grad_f ag x out s = (Inl AssertionError, fed_nans ''grad f(x) was fed NaNs!'' x s)
       \<and> eval_g x out s = (Inl AssertionError, fed_nans ''g(x) was fed NaNs!'' x s)
       \<and> eval_jac_g x out s = (Inl AssertionError, fed_nans ''jac g(x) was fed NaNs!'' x s)
       \<and> fed_nans what x s = s\<lparr>stdout := stdout s @ [Line what, Dump ''x = '' x]\<rparr>"
  by (intro conjI eval_f_nan eval_grad_f_nan eval_g_nan eval_jac_g_nan assms fed_nans_def)

theorem nan_input_aborts_every_callback_witness:
  "NaN \<in> set [Fin 0, NaN] \<and>
   (\<forall>s ag out.
      eval_f [Fin 0, NaN] s = (Inl AssertionError, fed_nans ''f(x) was fed NaNs!'' [Fin 0, NaN] s)
    \<and> eval_grad_f ag [Fin 0, NaN] out s =
        (Inl AssertionError, fed_nans ''grad f(x) was fed NaNs!'' [Fin 0, NaN] s)
    \<and> eval_g [Fin 0, NaN] out s = (Inl AssertionError, fed_nans ''g(x) was fed NaNs!'' [Fin 0, NaN] s)
    \<and> eval_jac_g [Fin 0, NaN] out s =
        (Inl AssertionError, fed_nans ''jac g(x) was fed NaNs!'' [Fin 0, NaN] s)
    \<and> fed_nans ''f(x) was fed NaNs!'' [Fin 0, NaN] s
        = s\<lparr>stdout := stdout s @ [Line ''f(x) was fed NaNs!'', Dump ''x = '' [Fin 0, NaN]]\<rparr>)"
proof (rule conjI)
  show h: "NaN \<in> set [Fin 0, NaN]" by simp
  show "\<forall>s ag out.
      eval_f [Fin 0, NaN] s = (Inl AssertionError, fed_nans ''f(x) was fed NaNs!'' [Fin 0, NaN] s)
    \<and> eval_grad_f ag [Fin 0, NaN] out s =
        (Inl AssertionError, fed_nans ''grad f(x) was fed NaNs!'' [Fin 0, NaN] s)
    \<and> eval_g [Fin 0, NaN] out s = (Inl AssertionError, fed_nans ''g(x) was fed NaNs!'' [Fin 0, NaN] s)
    \<and> eval_jac_g [Fin 0, NaN] out s =
        (Inl AssertionError, fed_nans ''jac g(x) was fed NaNs!'' [Fin 0, NaN] s)
    \<and> fed_nans ''f(x) was fed NaNs!'' [Fin 0, NaN] s
        = s\<lparr>stdout := stdout s @ [Line ''f(x) was fed NaNs!'', Dump ''x = '' [Fin 0, NaN]]\<rparr>"
    by (intro allI) (rule nan_input_aborts_every_callback [OF h])
qed

subsection \<open>Exceptions at the solver boundary\<close>

text \<open>
  C9. Whenever one of the four callbacks raises an exception \<open>e\<close>, leaving the object as
  \<open>s'\<close>, the closure that \<^verbatim>\<open>ipopt\<close> hands to the solver prints its error line and the
  exception and returns \<^verbatim>\<open>None\<close>: the exception does not reach the solver.
\<close>

theorem callbacks_swallow_exceptions:
  "(eval_f x s = (Inl e, s') \<longrightarrow>
      ipopt_eval_f x s =
        (None, s'\<lparr>stdout := stdout s' @ [Line ''ERROR when IPOPT was evaluating our f(x)!'', Exc e]\<rparr>))
   \<and> (eval_grad_f ag x out s = (Inl e, s') \<longrightarrow>
      ipopt_eval_grad_f ag x out s =
        (None, s'\<lparr>stdout := stdout s' @
                  [Line ''ERROR when IPOPT was evaluating our gradient of f(x)!'', Exc e]\<rparr>))
   \<and> (eval_g x out s = (Inl e, s') \<longrightarrow>
      ipopt_eval_g x out s =
        (None, s'\<lparr>stdout := stdout s' @ [Line ''ERROR when IPOPT was evaluating our g(x)!'', Exc e]\<rparr>))
   \<and> (eval_jac_g x out s = (Inl e, s') \<longrightarrow>
      ipopt_eval_jac_g x out s =
        (None, s'\<lparr>stdout := stdout s' @
                  [Line ''ERROR when IPOPT was evaluating our Jacobian of g(x)!'', Exc e]\<rparr>))"
  by (simp add: ipopt_eval_f_def ipopt_eval_grad_f_def ipopt_eval_g_def ipopt_eval_jac_g_def
        guarded_Inl)

theorem callbacks_swallow_exceptions_witness:
  "\<forall>s ag out.
     ipopt_eval_f [NaN] s =
       (None, (fed_nans ''f(x) was fed NaNs!'' [NaN] s)\<lparr>stdout :=
          stdout (fed_nans ''f(x) was fed NaNs!'' [NaN] s) @
            [Line ''ERROR when IPOPT was evaluating our f(x)!'', Exc AssertionError]\<rparr>)
   \<and> ipopt_eval_grad_f ag [NaN] out s =
       (None, (fed_nans ''grad f(x) was fed NaNs!'' [NaN] s)\<lparr>stdout :=
          stdout (fed_nans ''grad f(x) was fed NaNs!'' [NaN] s) @
            [Line ''ERROR when IPOPT was evaluating our gradient of f(x)!'', Exc AssertionError]\<rparr>)
   \<and> ipopt_eval_g [NaN] out s =
       (None, (fed_nans ''g(x) was fed NaNs!'' [NaN] s)\<lparr>stdout :=
          stdout (fed_nans ''g(x) was fed NaNs!'' [NaN] s) @
            [Line ''ERROR when IPOPT was evaluating our g(x)!'', Exc AssertionError]\<rparr>)
   \<and> ipopt_eval_jac_g [NaN] out s =
       (None, (fed_nans ''jac g(x) was fed NaNs!'' [NaN] s)\<lparr>stdout :=
          stdout (fed_nans ''jac g(x) was fed NaNs!'' [NaN] s) @
            [Line ''ERROR when IPOPT was evaluating our Jacobian of g(x)!'', Exc AssertionError]\<rparr>)"
proof (intro allI conjI)
  fix s :: trajectory and ag :: "trajectory \<Rightarrow> tensor_ref \<Rightarrow> vec option" and out :: vec
  have n: "NaN \<in> set [NaN]" by simp
  note t = callbacks_swallow_exceptions [of "[NaN]" s AssertionError _ ag out]
  show "ipopt_eval_f [NaN] s =
       (None, (fed_nans ''f(x) was fed NaNs!'' [NaN] s)\<lparr>stdout :=
          stdout (fed_nans ''f(x) was fed NaNs!'' [NaN] s) @
            [Line ''ERROR when IPOPT was evaluating our f(x)!'', Exc AssertionError]\<rparr>)"
    by (rule t [THEN conjunct1, rule_format, OF eval_f_nan [OF n]])
  show "ipopt_eval_grad_f ag [NaN] out s =
       (None, (fed_nans ''grad f(x) was fed NaNs!'' [NaN] s)\<lparr>stdout :=
          stdout (fed_nans ''grad f(x) was fed NaNs!'' [NaN] s) @
            [Line ''ERROR when IPOPT was evaluating our gradient of f(x)!'', Exc AssertionError]\<rparr>)"
    by (rule t [THEN conjunct2, THEN conjunct1, rule_format, OF eval_grad_f_nan [OF n]])
  show "ipopt_eval_g [NaN] out s =
       (None, (fed_nans ''g(x) was fed NaNs!'' [NaN] s)\<lparr>stdout :=
          stdout (fed_nans ''g(x) was fed NaNs!'' [NaN] s) @
            [Line ''ERROR when IPOPT was evaluating our g(x)!'', Exc AssertionError]\<rparr>)"
    by (rule t [THEN conjunct2, THEN conjunct2, THEN conjunct1, rule_format, OF eval_g_nan [OF n]])
  show "ipopt_eval_jac_g [NaN] out s =
       (None, (fed_nans ''jac g(x) was fed NaNs!'' [NaN] s)\<lparr>stdout :=
          stdout (fed_nans ''jac g(x) was fed NaNs!'' [NaN] s) @
            [Line ''ERROR when IPOPT was evaluating our Jacobian of g(x)!'', Exc AssertionError]\<rparr>)"
    by (rule t [THEN conjunct2, THEN conjunct2, THEN conjunct2, rule_format, OF eval_jac_g_nan [OF n]])
qed

subsection \<open>Zeroing the gradients\<close>

text \<open>
  C5. The claim: \<^verbatim>\<open>eval_grad_f\<close> zeroes the gradient of every decision variable, also of
  the velocity of knot 0 when the start is tunable, before it backpropagates. With a
  tunable start (2 steps in one shot, one degree of freedom) \<^verbatim>\<open>tensors()\<close> holds the
  position of knot 0 twice and its velocity not at all. With an autodiff runtime that
  reports the gradient 1 for every leaf, the first call of \<^verbatim>\<open>eval_grad_f\<close> returns
  \<open>[1, 1, 1, 1]\<close> and the second call, at the same \<open>x\<close>, returns \<open>[1, 2, 1, 1]\<close>: the
  gradient of the start velocity was not zeroed and has accumulated.
\<close>

theorem start_velocity_gradient_not_zeroed:
  "(case construct spring_world no_step_loss no_final_loss 2 2 True False None [] of
      Inl e \<Rightarrow> None
    | Inr s \<Rightarrow>
       (case eval_grad_f unit_grad (replicate 4 (Fin 0)) (zeros 4) s of
          (first, s1) \<Rightarrow>
            Some (tensors s, first,
                  fst (eval_grad_f unit_grad (replicate 4 (Fin 0)) (zeros 4) s1))))
   = Some ([KnotPose 0, KnotPose 0, Torque 0, Torque 1], Inr [1, 1, 1, 1], Inr [1, 2, 1, 1])"
  by (simp add: eval_simps numeral_2_eq_2 numeral_eq_Suc)

subsection \<open>Disabled actuators\<close>

lemma py_set_Inr:
  "py_set m j v = Inr m1 \<Longrightarrow> \<exists>k. py_index (length m) j = Inr k \<and> k < length m \<and> m1 = m[k := v]"
  by (auto simp: py_set_def py_index_def bindR_def Let_def split: if_splits)

lemma disable_mask_props:
  "disable_mask js m = Inr m' \<Longrightarrow>
     length m' = length m
     \<and> (\<forall>j\<in>set js. \<exists>k. py_index (length m) j = Inr k \<and> k < length m \<and> m' ! k = 0)
     \<and> (\<forall>k<length m. m ! k = 0 \<longrightarrow> m' ! k = 0)"
proof (induction js arbitrary: m)
  case Nil
  then show ?case by simp
next
  case (Cons j js)
  from Cons.prems obtain m1 where s: "py_set m j 0 = Inr m1" and r: "disable_mask js m1 = Inr m'"
    by (auto simp: bindR_def split: sum.splits)
  from py_set_Inr [OF s] obtain k where
    k: "py_index (length m) j = Inr k" "k < length m" "m1 = m[k := 0]" by blast
  note ih = Cons.IH [OF r]
  have len: "length m1 = length m" using k by simp
  have "m1 ! k = 0" using k by simp
  with ih k len have mk: "m' ! k = 0" by simp
  show ?case
  proof (intro conjI ballI allI impI)
    show "length m' = length m" using ih len by simp
  next
    fix j' assume "j' \<in> set (j # js)"
    then consider "j' = j" | "j' \<in> set js" by auto
    then show "\<exists>k. py_index (length m) j' = Inr k \<and> k < length m \<and> m' ! k = 0"
    proof cases
      case 1 with k mk show ?thesis by blast
    next
      case 2 with ih len show ?thesis by simp
    qed
  next
    fix k' assume "k' < length m" "m ! k' = 0"
    then have "m1 ! k' = 0" using k by (cases "k' = k") simp_all
    with ih len \<open>k' < length m\<close> show "m' ! k' = 0" by simp
  qed
qed

text \<open>
  The mask the constructor computes stays the mask of the object: no method assigns it
  again. On a stored torque of the size of the world its product with the torque is zero
  at every disabled index. \<^verbatim>\<open>unroll\<close> applies the forward-dynamics step and the running
  cost inside its loop only, each once per step and to the control of the step, so two
  objects that differ in these two functions roll out alike as soon as the functions agree
  on the controls that are handed to them.
\<close>

lemma construct_mask_inv:
  assumes "construct w sl fl stps len tune loop final disabled = Inr s0"
  shows "disable_mask (disable_actuators s0) (replicate (world_dofs s0) 1) = Inr (mask s0)"
  using assms
  by (auto simp: construct_def bindR_def Let_def split: if_splits sum.splits)

lemma masked_torque_zero:
  assumes m: "disable_mask (disable_actuators s) (replicate (world_dofs s) 1) = Inr (mask s)"
    and tq: "\<forall>tq\<in>set (torques s). length (data tq) = world_dofs s"
    and r: "masked_torque s i = Inr t"
  shows "zero_at (disable_actuators s) t"
proof -
  let ?d = "world_dofs s"
  from r have i: "i < length (torques s)"
    by (auto simp: masked_torque_def get_item_def bindR_def split: if_splits)
  then have "torques s ! i \<in> set (torques s)" by simp
  with tq have l: "length (data (torques s ! i)) = ?d" by blast
  from disable_mask_props [OF m] have len: "length (mask s) = ?d"
    and ks: "\<forall>j\<in>set (disable_actuators s). \<exists>k. py_index ?d j = Inr k \<and> k < ?d \<and> mask s ! k = 0"
    by simp_all
  have t: "t = map2 (*) (data (torques s ! i)) (map real_of_int (mask s))"
    using r i l len by (simp add: masked_torque_def get_item_def bindR_def broadcast2_def)
  have lt: "length t = ?d" using l len by (simp add: t)
  show ?thesis
    unfolding zero_at_def
  proof
    fix j assume "j \<in> set (disable_actuators s)"
    with ks obtain k where k: "py_index ?d j = Inr k" "k < ?d" "mask s ! k = 0" by blast
    have "t ! k = 0" using k l len by (simp add: t)
    with lt k show "py_get t j = Inr 0" by (simp add: py_get_def bindR_def)
  qed
qed

lemma masked_torque_ext: "masked_torque (with_externals dl cost s) i = masked_torque s i"
  by (simp add: masked_torque_def with_externals_def)

lemma unroll_knot_ext:
  "unroll_knot i acc (with_externals dl cost s)
     = (case unroll_knot i acc s of (r, s1) \<Rightarrow> (r, with_externals dl cost s1))"
  by (cases acc)
     (simp add: unroll_knot_def with_externals_def Let_def split: sum.splits prod.splits)

lemma unroll_knot_frame:
  assumes "unroll_knot i acc s = (r, s1)"
  shows "torques s1 = torques s \<and> mask s1 = mask s \<and> world s1 = world s
         \<and> step_loss s1 = step_loss s \<and> disable_actuators s1 = disable_actuators s
         \<and> snapshots s1 = snapshots s"
  using assms
  by (cases acc) (auto simp: unroll_knot_def Let_def split: sum.splits prod.splits)


lemma with_externals_fields:
  "world_dofs (with_externals dl cost s) = world_dofs s"
  "shooting_length (with_externals dl cost s) = shooting_length s"
  "snapshots (with_externals dl cost s) = snapshots s"
  "dart_layer (world (with_externals dl cost s)) = dl"
  "step_loss (with_externals dl cost s) = cost"
  "(with_externals dl cost s)\<lparr>snapshots := sn\<rparr> = with_externals dl cost (s\<lparr>snapshots := sn\<rparr>)"
  by (simp_all add: with_externals_def)

lemma unroll_steps_ext:
  assumes m: "disable_mask (disable_actuators s) (replicate (world_dofs s) 1) = Inr (mask s)"
    and tq: "\<forall>tq\<in>set (torques s). length (data tq) = world_dofs s"
    and dl: "\<forall>p v t. zero_at (disable_actuators s) t \<longrightarrow> dl p v t = dart_layer (world s) p v t"
    and cost: "\<forall>p v t. zero_at (disable_actuators s) t \<longrightarrow> cost p v t = step_loss s p v t"
  shows "unroll_steps uk idxs acc (with_externals dl cost s)
           = (case unroll_steps uk idxs acc s of (r, s') \<Rightarrow> (r, with_externals dl cost s'))"
  using assms
proof (induction idxs arbitrary: acc s)
  case Nil
  then show ?case by simp
next
  case (Cons i rest)
  obtain pos vel loss kl where acc: "acc = (pos, vel, loss, kl)" by (cases acc)
  let ?e = "with_externals dl cost"
  show ?case
  proof (cases "masked_torque s i")
    case (Inl e)
    then show ?thesis by (simp add: acc masked_torque_ext)
  next
    case (Inr t)
    note t = this
    from masked_torque_zero [OF Cons.prems(1,2) t] have z: "zero_at (disable_actuators s) t" .
    show ?thesis
    proof (cases "py_mod (int i) (shooting_length s)")
      case (Inl e)
      then show ?thesis by (simp add: acc masked_torque_ext t with_externals_fields)
    next
      case (Inr r)
      note r = this
      let ?k = "\<lambda>s. if r = 0 \<and> i > 0 \<and> uk then unroll_knot i (pos, vel, kl) s
                     else (Inr (pos, vel, kl), s)"
      obtain r1 s1 where k: "?k s = (r1, s1)" by (cases "?k s")
      have ke: "?k (?e s) = (r1, ?e s1)"
        using k by (auto simp: unroll_knot_ext split: if_splits)
      have fr: "torques s1 = torques s \<and> mask s1 = mask s \<and> world s1 = world s
         \<and> step_loss s1 = step_loss s \<and> disable_actuators s1 = disable_actuators s"
        using k unroll_knot_frame [of i "(pos, vel, kl)" s r1 s1] by (auto split: if_splits)
      show ?thesis
      proof (cases r1)
        case (Inl e)
        have "unroll_steps uk (i # rest) (pos, vel, loss, kl) s = (Inl e, s1)"
          using t r k Inl by simp
        moreover have "unroll_steps uk (i # rest) (pos, vel, loss, kl) (?e s) = (Inl e, ?e s1)"
          using t r ke Inl by (simp add: masked_torque_ext with_externals_fields)
        ultimately show ?thesis by (simp add: acc)
      next
        case (Inr st)
        obtain pos1 vel1 kl1 where st: "st = (pos1, vel1, kl1)" by (cases st)
        obtain np nv snap where d: "dart_layer (world s1) pos1 vel1 t = (np, nv, snap)"
          by (cases "dart_layer (world s1) pos1 vel1 t")
        have de: "dl pos1 vel1 t = (np, nv, snap)" using d z fr Cons.prems(3) by simp
        have ce: "cost pos1 vel1 t = step_loss s1 pos1 vel1 t" using z fr Cons.prems(4) by simp
        show ?thesis
        proof (cases "set_item (snapshots s1) i (Some snap)")
          case (Inl e)
          have "unroll_steps uk (i # rest) (pos, vel, loss, kl) s = (Inl e, s1)"
            using t r k Inr st d Inl by simp
          moreover have "unroll_steps uk (i # rest) (pos, vel, loss, kl) (?e s) = (Inl e, ?e s1)"
            using t r ke Inr st de Inl by (simp add: masked_torque_ext with_externals_fields)
          ultimately show ?thesis by (simp add: acc)
        next
          case (Inr sn)
          let ?s2 = "s1\<lparr>snapshots := sn\<rparr>"
          let ?a = "(np, nv, loss + step_loss s1 pos1 vel1 t, kl1)"
          have a: "unroll_steps uk (i # rest) (pos, vel, loss, kl) s = unroll_steps uk rest ?a ?s2"
            using t r k \<open>r1 = Inr st\<close> st d Inr by simp
          have b: "unroll_steps uk (i # rest) (pos, vel, loss, kl) (?e s)
                     = unroll_steps uk rest ?a (?e ?s2)"
            using t r ke \<open>r1 = Inr st\<close> st de ce Inr
            by (simp add: masked_torque_ext with_externals_fields)
          have p1: "disable_mask (disable_actuators ?s2) (replicate (world_dofs ?s2) 1) = Inr (mask ?s2)"
            using Cons.prems(1) fr by simp
          have p2: "\<forall>tq\<in>set (torques ?s2). length (data tq) = world_dofs ?s2"
            using Cons.prems(2) fr by simp
          have p3: "\<forall>p v t. zero_at (disable_actuators ?s2) t \<longrightarrow> dl p v t = dart_layer (world ?s2) p v t"
            using Cons.prems(3) fr by simp
          have p4: "\<forall>p v t. zero_at (disable_actuators ?s2) t \<longrightarrow> cost p v t = step_loss ?s2 p v t"
            using Cons.prems(4) fr by simp
          from Cons.IH [OF p1 p2 p3 p4, of ?a] a b show ?thesis by (simp only: acc)
        qed
      qed
    qed
  qed
qed


lemma barrier_ext:
  "loop_barrier (with_externals dl cost s) = loop_barrier s"
  "final_barrier (with_externals dl cost s) = final_barrier s"
  by (simp_all add: fun_eq_iff loop_barrier_def final_barrier_def with_externals_def
        split: option.splits)

lemma unroll_ext:
  assumes m: "disable_mask (disable_actuators s) (replicate (world_dofs s) 1) = Inr (mask s)"
    and tq: "\<forall>tq\<in>set (torques s). length (data tq) = world_dofs s"
    and dl: "\<forall>p v t. zero_at (disable_actuators s) t \<longrightarrow> dl p v t = dart_layer (world s) p v t"
    and cost: "\<forall>p v t. zero_at (disable_actuators s) t \<longrightarrow> cost p v t = step_loss s p v t"
  shows "unroll uk (with_externals dl cost s)
           = (case unroll uk s of (r, s') \<Rightarrow> (r, with_externals dl cost s'))"
proof -
  let ?e = "with_externals dl cost"
  have k: "knot_poses (?e s) = knot_poses s" "knot_vels (?e s) = knot_vels s" "steps (?e s) = steps s"
    by (simp_all add: with_externals_def)
  show ?thesis
  proof (cases "bindR (get_item (knot_poses s) 0) (\<lambda>p. bindR (get_item (knot_vels s) 0) (\<lambda>v. Inr (p, v)))")
    case (Inl e)
    then show ?thesis by (simp add: unroll_def k)
  next
    case (Inr pv)
    obtain p0 v0 where pv: "pv = (p0, v0)" by (cases pv)
    let ?run = "unroll_steps uk [0..<nat (steps s)] (data p0, data v0, 0, 0)"
    obtain r1 s1 where u: "?run s = (r1, s1)" by (cases "?run s")
    from unroll_steps_ext [OF m tq dl cost, of uk "[0..<nat (steps s)]" "(data p0, data v0, 0, 0)"] u
    have ue: "?run (?e s) = (r1, ?e s1)" by simp
    show ?thesis
    proof (cases r1)
      case (Inl e)
      then show ?thesis using Inr pv u ue by (simp add: unroll_def k)
    next
      case (Inr st)
      obtain pos vel loss kl where st: "st = (pos, vel, loss, kl)" by (cases st)
      let ?s2 = "s1\<lparr>last_terminal_pos := pos, last_terminal_vel := vel\<rparr>"
      have c: "(?e s1)\<lparr>last_terminal_pos := pos, last_terminal_vel := vel\<rparr> = ?e ?s2"
        "final_loss (?e s1) = final_loss s1"
        "\<And>l. (?e ?s2)\<lparr>last_loss := l\<rparr> = ?e (?s2\<lparr>last_loss := l\<rparr>)"
        by (simp_all add: with_externals_def)
      show ?thesis
        using \<open>bindR (get_item (knot_poses s) 0) (\<lambda>p. bindR (get_item (knot_vels s) 0) (\<lambda>v. Inr (p, v))) = Inr pv\<close>
          pv u ue Inr st
        by (simp add: unroll_def k c barrier_ext Let_def split: sum.splits)
    qed
  qed
qed

text \<open>
  On finite stored values the floating-point product is the product of the reals:
  \<open>masked_torque\<close> is the control of the program for every finite stored torque. With a
  finite value at a disabled index the floating-point control is zero there, whatever the
  other entries are.
\<close>

lemma map2_finite:
  "map2 f64_mul (map Finite a) (map (\<lambda>m. Finite (real_of_int m)) b)
     = map Finite (map2 (*) a (map real_of_int b))"
  by (induction a arbitrary: b) (auto simp: zip_Cons1 split: list.splits)

lemma masked_torque_f64_finite:
  "masked_torque_f64 (map (\<lambda>tq. map Finite (data tq)) (torques s)) (mask s) i
     = map_sum id (map Finite) (masked_torque s i)"
proof (cases "i < length (torques s)")
  case False
  then show ?thesis
    by (simp add: masked_torque_f64_def masked_torque_def get_item_def bindR_def)
next
  case True
  let ?a = "data (torques s ! i)" and ?b = "mask s"
  have "broadcast2 f64_mul (map Finite ?a) (map (\<lambda>m. Finite (real_of_int m)) ?b)
          = map_sum id (map Finite) (broadcast2 (*) ?a (map real_of_int ?b))"
  proof -
    have h1: "length ?a = 1 \<Longrightarrow> hd (map Finite ?a) = Finite (hd ?a)"
      by (cases ?a) simp_all
    have h2: "length ?b = 1 \<Longrightarrow> hd (map (\<lambda>m. Finite (real_of_int m)) ?b) = Finite (real_of_int (hd ?b))
                \<and> hd (map real_of_int ?b) = real_of_int (hd ?b)"
      by (cases ?b) simp_all
    show ?thesis
      using h1 h2 by (auto simp: broadcast2_def map2_finite)
  qed
  with True show ?thesis
    by (simp add: masked_torque_f64_def masked_torque_def get_item_def bindR_def)
qed

lemma masked_torque_f64_zero:
  assumes m: "disable_mask disabled (replicate d 1) = Inr msk"
    and g: "get_item stored i = Inr tq" and l: "length tq = d"
    and j: "j \<in> set disabled" and x: "py_get tq j = Inr (Finite x)"
  shows "\<exists>t. masked_torque_f64 stored msk i = Inr t \<and> py_get t j = Inr (Finite 0)"
proof -
  from disable_mask_props [OF m] j obtain k where
    len: "length msk = d" and k: "py_index d j = Inr k" "k < d" "msk ! k = 0"
    by auto
  let ?t = "map2 f64_mul tq (map (\<lambda>m. Finite (real_of_int m)) msk)"
  have mt: "masked_torque_f64 stored msk i = Inr ?t"
    using g l len by (simp add: masked_torque_f64_def bindR_def broadcast2_def)
  have "tq ! k = Finite x" using x k l by (simp add: py_get_def bindR_def)
  then have "?t ! k = Finite 0" using k l len by simp
  moreover have "length ?t = d" using l len by simp
  ultimately have "py_get ?t j = Inr (Finite 0)" using k by (simp add: py_get_def bindR_def)
  with mt show ?thesis by blast
qed

text \<open>
  C7, as the claim states it, fails for a stored value that is not finite. With two
  degrees of freedom and \<^verbatim>\<open>disable_actuators = [0]\<close> the constructor's mask is \<open>[0, 1]\<close>;
  for the stored torque \<open>[inf, 7]\<close>, and for \<open>[nan, 7]\<close>, the control
  \<^verbatim>\<open>t = self.torques[i] * self.mask\<close> of the step is \<open>[nan, 7]\<close>: its component 0 is NaN, not
  zero, and \<^verbatim>\<open>unroll\<close> hands this \<open>t\<close> to \<^verbatim>\<open>self.step_loss\<close> and to \<^verbatim>\<open>dart_layer\<close>.
\<close>

theorem disabled_control_is_nan_for_infinite_torque:
  "map_sum id mask (construct two_dof_world effort_loss no_final_loss 1 1 False False None [0])
     = Inr [0, 1]
   \<and> masked_torque_f64 [[PInf, Finite 7]] [0, 1] 0 = Inr [NotANumber, Finite 7]
   \<and> masked_torque_f64 [[NotANumber, Finite 7]] [0, 1] 0 = Inr [NotANumber, Finite 7]"
  by (simp add: construct_def bindR_def py_floordiv_def get_flat_problem_dim_def py_mod_def Let_def
        two_dof_world_def py_set_def py_index_def numeral_2_eq_2
        masked_torque_f64_def get_item_def broadcast2_def)

text \<open>
  C7, amended to finite stored values. For an object whose mask is the one the
  constructor computes from \<^verbatim>\<open>disable_actuators\<close> and whose stored torques have the size of
  the world:

  \<^item> on the floating-point values, whatever else the torque holds, a finite stored value
    at a disabled index \<open>j\<close> gives the control \<^verbatim>\<open>self.torques[i] * self.mask\<close> the
    component \<open>j\<close> equal to zero;

  \<^item> on the finite values of the rest of the theory, the control of every step has every
    disabled component equal to zero;

  \<^item> and a rollout hands to the running cost and to the forward-dynamics step only such
    controls: put any other two functions in their place that agree with them on the
    controls with every disabled component at zero, and \<^verbatim>\<open>unroll\<close> returns the same
    losses and leaves the same object.
\<close>

theorem disabled_actuator_has_zero_control:
  assumes m: "disable_mask (disable_actuators s) (replicate (world_dofs s) 1) = Inr (mask s)"
    and tq: "\<forall>tq\<in>set (torques s). length (data tq) = world_dofs s"
    and dl: "\<forall>p v t. zero_at (disable_actuators s) t \<longrightarrow> dl p v t = dart_layer (world s) p v t"
    and cost: "\<forall>p v t. zero_at (disable_actuators s) t \<longrightarrow> cost p v t = step_loss s p v t"
  shows "(\<forall>stored i tq j x.
            get_item stored i = Inr tq \<and> length tq = world_dofs s
            \<and> j \<in> set (disable_actuators s) \<and> py_get tq j = Inr (Finite x)
            \<longrightarrow> (\<exists>t. masked_torque_f64 stored (mask s) i = Inr t \<and> py_get t j = Inr (Finite 0)))
       \<and> (\<forall>i t. masked_torque s i = Inr t \<longrightarrow> zero_at (disable_actuators s) t)
       \<and> unroll use_knots (with_externals dl cost s)
           = (case unroll use_knots s of (r, s') \<Rightarrow> (r, with_externals dl cost s'))"
proof (intro conjI allI impI)
  fix stored i tq j x
  assume "get_item stored i = Inr tq \<and> length tq = world_dofs s
            \<and> j \<in> set (disable_actuators s) \<and> py_get tq j = Inr (Finite x)"
  then show "\<exists>t. masked_torque_f64 stored (mask s) i = Inr t \<and> py_get t j = Inr (Finite 0)"
    using masked_torque_f64_zero [OF m] by blast
next
  fix i t assume "masked_torque s i = Inr t"
  then show "zero_at (disable_actuators s) t" by (rule masked_torque_zero [OF m tq])
next
  show "unroll use_knots (with_externals dl cost s)
           = (case unroll use_knots s of (r, s') \<Rightarrow> (r, with_externals dl cost s'))"
    by (rule unroll_ext [OF m tq dl cost])
qed

lemma zero_at_first: "zero_at [0] t \<Longrightarrow> t[0 := 0] = t"
  by (cases t) (auto simp: zero_at_def py_get_def py_index_def bindR_def Let_def split: if_splits)

lemma masked_rollout_run:
  "(case construct two_dof_world effort_loss no_final_loss 2 2 False False None [0] of
      Inl e \<Rightarrow> False
    | Inr s0 \<Rightarrow>
        world s0 = two_dof_world \<and> step_loss s0 = effort_loss \<and> disable_actuators s0 = [0]
        \<and> mask s0 = [0, 1]
        \<and> masked_torque (s0\<lparr>torques := [\<lparr>data = [5, 7], grad = None\<rparr>, \<lparr>data = [3, 2], grad = None\<rparr>]\<rparr>) 0
            = Inr [0, 7]
        \<and> (case unroll True
                   (s0\<lparr>torques := [\<lparr>data = [5, 7], grad = None\<rparr>, \<lparr>data = [3, 2], grad = None\<rparr>]\<rparr>) of
              (r, s') \<Rightarrow>
                r = Inr (53, 0)
                \<and> map (map_option force_vel) (snapshots s') = [Some [[0, 7]], Some [[0, 2]]]))"
  by (simp add: eval_simps two_dof_world_def recording_step_def effort_loss_def
        numeral_2_eq_2 numeral_eq_Suc)

theorem disabled_actuator_has_zero_control_witness:
  "\<exists>s0 s'. construct two_dof_world effort_loss no_final_loss 2 2 False False None [0] = Inr s0
     \<and> mask s0 = [0, 1]
     \<and> masked_torque_f64 [[Finite 5, PInf], [NotANumber, Finite 2]] (mask s0) 0
         = Inr [Finite 0, PInf]
     \<and> (\<exists>t. masked_torque_f64 [[Finite 5, PInf], [NotANumber, Finite 2]] (mask s0) 0 = Inr t
            \<and> py_get t 0 = Inr (Finite 0))
     \<and> masked_torque (s0\<lparr>torques := [\<lparr>data = [5, 7], grad = None\<rparr>, \<lparr>data = [3, 2], grad = None\<rparr>]\<rparr>) 0
         = Inr [0, 7]
     \<and> zero_at (disable_actuators s0) [0, 7]
     \<and> unroll True (s0\<lparr>torques := [\<lparr>data = [5, 7], grad = None\<rparr>, \<lparr>data = [3, 2], grad = None\<rparr>]\<rparr>)
         = (Inr (53, 0), s')
     \<and> map (map_option force_vel) (snapshots s') = [Some [[0, 7]], Some [[0, 2]]]
     \<and> unroll True
          (with_externals (\<lambda>p v t. dart_layer two_dof_world p v (t[0 := 0]))
                          (\<lambda>p v t. effort_loss p v (t[0 := 0]))
             (s0\<lparr>torques := [\<lparr>data = [5, 7], grad = None\<rparr>, \<lparr>data = [3, 2], grad = None\<rparr>]\<rparr>))
         = (Inr (53, 0),
            with_externals (\<lambda>p v t. dart_layer two_dof_world p v (t[0 := 0]))
                           (\<lambda>p v t. effort_loss p v (t[0 := 0])) s')"
proof -
  let ?T = "[\<lparr>data = [5, 7], grad = None\<rparr>, \<lparr>data = [3, 2], grad = None\<rparr>]"
  let ?dl = "\<lambda>p v t. dart_layer two_dof_world p v (t[0 := 0::real])"
  let ?cost = "\<lambda>p v t. effort_loss p v (t[0 := 0::real])"
  from masked_rollout_run obtain s0 where
    c: "construct two_dof_world effort_loss no_final_loss 2 2 False False None [0] = Inr s0"
    and w: "world s0 = two_dof_world" and sl: "step_loss s0 = effort_loss"
    and da: "disable_actuators s0 = [0]" and mk: "mask s0 = [0, 1]"
    and mt: "masked_torque (s0\<lparr>torques := ?T\<rparr>) 0 = Inr [0, 7]"
    and f: "case unroll True (s0\<lparr>torques := ?T\<rparr>) of
              (r, s') \<Rightarrow>
                r = Inr (53, 0)
                \<and> map (map_option force_vel) (snapshots s') = [Some [[0, 7]], Some [[0, 2]]]"
    by (auto split: sum.splits)
  let ?s = "s0\<lparr>torques := ?T\<rparr>"
  obtain s' where u: "unroll True ?s = (Inr (53, 0), s')"
    and sn: "map (map_option force_vel) (snapshots s') = [Some [[0, 7]], Some [[0, 2]]]"
    using f by (cases "unroll True ?s") simp
  have m: "disable_mask (disable_actuators ?s) (replicate (world_dofs ?s) 1) = Inr (mask ?s)"
    using construct_mask_inv [OF c] by simp
  have tq: "\<forall>tq\<in>set (torques ?s). length (data tq) = world_dofs ?s"
    by (simp add: w two_dof_world_def)
  have dl: "\<forall>p v t. zero_at (disable_actuators ?s) t \<longrightarrow> ?dl p v t = dart_layer (world ?s) p v t"
    by (simp add: da w zero_at_first)
  have cost: "\<forall>p v t. zero_at (disable_actuators ?s) t \<longrightarrow> ?cost p v t = step_loss ?s p v t"
    by (simp add: da sl zero_at_first)
  have g: "get_item [[Finite 5, PInf], [NotANumber, Finite 2]] 0 = Inr [Finite 5, PInf]
           \<and> length [Finite 5, PInf] = world_dofs ?s \<and> 0 \<in> set (disable_actuators ?s)
           \<and> py_get [Finite 5, PInf] 0 = Inr (Finite 5)"
    by (simp add: get_item_def py_get_def py_index_def bindR_def da w two_dof_world_def)
  note th = disabled_actuator_has_zero_control [OF m tq dl cost, of True]
  from th g have "\<exists>t. masked_torque_f64 [[Finite 5, PInf], [NotANumber, Finite 2]] (mask ?s) 0 = Inr t
            \<and> py_get t 0 = Inr (Finite 0)"
    by blast
  then have pz: "\<exists>t. masked_torque_f64 [[Finite 5, PInf], [NotANumber, Finite 2]] (mask s0) 0 = Inr t
            \<and> py_get t 0 = Inr (Finite 0)"
    by simp
  from th mt have z: "zero_at (disable_actuators s0) [0, 7]" by simp
  from th u have e: "unroll True (with_externals ?dl ?cost ?s) = (Inr (53, 0), with_externals ?dl ?cost s')"
    by simp
  have p: "masked_torque_f64 [[Finite 5, PInf], [NotANumber, Finite 2]] (mask s0) 0 = Inr [Finite 0, PInf]"
    by (simp add: mk masked_torque_f64_def get_item_def bindR_def broadcast2_def)
  show ?thesis by (intro exI [of _ s0] exI [of _ s'] conjI) (rule c mk p pz mt z u sn e)+
qed

subsection \<open>The constraint vector\<close>











lemma filter_nonzero_upt: "filter (\<lambda>i. i \<noteq> 0) [0..<n] = [1..<n]"
proof (cases n)
  case 0
  then show ?thesis by simp
next
  case (Suc m)
  have "[0..<Suc m] = 0 # [1..<Suc m]" by (simp add: upt_conv_Cons)
  moreover have "filter (\<lambda>i. i \<noteq> 0) [1..<Suc m] = [1..<Suc m]"
    by (rule filter_True) auto
  ultimately show ?thesis using Suc by simp
qed


subsection \<open>Encoding after decoding\<close>

lemma slice_prefix: "take c x @ slice x c (c + d) = take (c + d) x"
  by (simp add: slice_def take_add)

lemma set_slice_prefix:
  assumes l: "length out = length x" and p: "take c out = take c x"
  shows "\<exists>out1. set_slice out c (c + d) (slice x c (c + d)) = Inr out1
           \<and> length out1 = length x \<and> take (c + d) out1 = take (c + d) x"
proof -
  let ?o = "take c out @ slice x c (c + d) @ drop (c + d) out"
  have "length (slice x c (c + d)) = length (slice out c (c + d))"
    using l by (simp add: slice_def)
  then have s: "set_slice out c (c + d) (slice x c (c + d)) = Inr ?o"
    by (simp add: set_slice_def Let_def)
  have o: "?o = take (c + d) x @ drop (c + d) out"
    using p slice_prefix [of c x d] by simp
  have len: "length ?o = length x"
    unfolding o using l by (simp add: min_def)
  have "take (c + d) ?o = take (c + d) x"
  proof (cases "c + d \<le> length x")
    case True
    then show ?thesis unfolding o by simp
  next
    case False
    then have "drop (c + d) out = []" using l by simp
    then show ?thesis unfolding o by simp
  qed
  with s len show ?thesis by blast
qed

lemma unflatten_torques_run:
  assumes "tc + k \<le> length (torques s)"
  shows "\<exists>ts. unflatten_torques x k (fc, tc) s
                = (Inr (fc + k * world_dofs s, tc + k), s\<lparr>torques := ts\<rparr>)
           \<and> length ts = length (torques s)
           \<and> (\<forall>j. j < tc \<or> tc + k \<le> j \<longrightarrow> ts ! j = torques s ! j)
           \<and> (\<forall>j<k. data (ts ! (tc + j))
                      = slice x (fc + j * world_dofs s) (fc + j * world_dofs s + world_dofs s))"
  using assms
proof (induction k arbitrary: fc tc s)
  case 0
  have "s\<lparr>torques := torques s\<rparr> = s" by simp
  then show ?case by (intro exI [of _ "torques s"]) simp
next
  case (Suc k)
  let ?d = "world_dofs s"
  let ?ts1 = "(torques s)[tc := (torques s ! tc)\<lparr>data := slice x fc (fc + ?d)\<rparr>]"
  let ?s1 = "s\<lparr>torques := ?ts1\<rparr>"
  from Suc.prems have lt: "tc < length (torques s)" by simp
  then have step: "unflatten_torques x (Suc k) (fc, tc) s
                     = unflatten_torques x k (fc + ?d, tc + 1) ?s1"
    by (simp add: set_data_def)
  have "tc + 1 + k \<le> length (torques ?s1)" using Suc.prems by simp
  from Suc.IH [OF this, of "fc + ?d"] obtain ts where
    r: "unflatten_torques x k (fc + ?d, tc + 1) ?s1
          = (Inr (fc + ?d + k * ?d, tc + 1 + k), s\<lparr>torques := ts\<rparr>)"
    and len: "length ts = length (torques s)"
    and fr: "\<forall>j. j < tc + 1 \<or> tc + 1 + k \<le> j \<longrightarrow> ts ! j = ?ts1 ! j"
    and vals: "\<forall>j<k. data (ts ! (tc + 1 + j))
                 = slice x (fc + ?d + j * ?d) (fc + ?d + j * ?d + ?d)"
    by auto
  show ?case
  proof (intro exI [of _ ts] conjI allI impI)
    show "unflatten_torques x (Suc k) (fc, tc) s
            = (Inr (fc + Suc k * ?d, tc + Suc k), s\<lparr>torques := ts\<rparr>)"
      using step r by (simp add: ac_simps)
    show "length ts = length (torques s)" by (rule len)
  next
    fix j assume "j < tc \<or> tc + Suc k \<le> j"
    then have c: "j < tc + 1 \<or> tc + 1 + k \<le> j" and n: "j \<noteq> tc" by auto
    from fr c have "ts ! j = ?ts1 ! j" by blast
    with n show "ts ! j = torques s ! j" by simp
  next
    fix j assume j: "j < Suc k"
    show "data (ts ! (tc + j)) = slice x (fc + j * ?d) (fc + j * ?d + ?d)"
    proof (cases j)
      case 0
      have "ts ! tc = ?ts1 ! tc" using fr by simp
      with lt 0 show ?thesis by simp
    next
      case (Suc j')
      with j have "j' < k" by simp
      with vals have "data (ts ! (tc + 1 + j'))
                 = slice x (fc + ?d + j' * ?d) (fc + ?d + j' * ?d + ?d)" by simp
      with Suc show ?thesis by (simp add: ac_simps)
    qed
  qed
qed

lemma flatten_torques_run:
  assumes "tc + k \<le> length (torques t)"
    and "\<forall>j<k. data (torques t ! (tc + j))
                 = slice x (fc + j * world_dofs t) (fc + j * world_dofs t + world_dofs t)"
    and "length out = length x" and "take fc out = take fc x"
  shows "\<exists>out'. flatten_torques t ''state'' k (fc, tc, out)
                   = Inr (fc + k * world_dofs t, tc + k, out')
           \<and> length out' = length x
           \<and> take (fc + k * world_dofs t) out' = take (fc + k * world_dofs t) x"
  using assms
proof (induction k arbitrary: fc tc out)
  case 0
  then show ?case by simp
next
  case (Suc k)
  let ?d = "world_dofs t"
  from Suc.prems have lt: "tc < length (torques t)" by simp
  from Suc.prems(2) have v: "data (torques t ! tc) = slice x fc (fc + ?d)" by fastforce
  from set_slice_prefix [OF Suc.prems(3,4), of ?d] obtain out1 where
    s: "set_slice out fc (fc + ?d) (slice x fc (fc + ?d)) = Inr out1"
    and l1: "length out1 = length x" and p1: "take (fc + ?d) out1 = take (fc + ?d) x"
    by blast
  have step: "flatten_torques t ''state'' (Suc k) (fc, tc, out)
                = flatten_torques t ''state'' k (fc + ?d, tc + 1, out1)"
    using lt v s by (simp add: flat_torque_def get_item_def bindR_def)
  have a: "tc + 1 + k \<le> length (torques t)" using Suc.prems by simp
  have b: "\<forall>j<k. data (torques t ! (tc + 1 + j))
                 = slice x (fc + ?d + j * ?d) (fc + ?d + j * ?d + ?d)"
  proof (intro allI impI)
    fix j assume "j < k"
    then have "Suc j < Suc k" by simp
    with Suc.prems(2) have "data (torques t ! (tc + Suc j))
                 = slice x (fc + Suc j * ?d) (fc + Suc j * ?d + ?d)" by blast
    then show "data (torques t ! (tc + 1 + j))
                 = slice x (fc + ?d + j * ?d) (fc + ?d + j * ?d + ?d)"
      by (simp add: ac_simps)
  qed
  from Suc.IH [OF a b l1 p1] obtain out' where
    "flatten_torques t ''state'' k (fc + ?d, tc + 1, out1)
        = Inr (fc + ?d + k * ?d, tc + 1 + k, out')"
    "length out' = length x"
    "take (fc + ?d + k * ?d) out' = take (fc + ?d + k * ?d) x"
    by blast
  with step show ?case by (simp add: ac_simps)
qed


lemma cfg_eq_refl: "cfg_eq s s"
  by (simp add: cfg_eq_def)

lemma cfg_eq_trans: "cfg_eq s t \<Longrightarrow> cfg_eq t u \<Longrightarrow> cfg_eq s u"
  by (simp add: cfg_eq_def)

lemma cfg_eq_sym: "cfg_eq s t \<Longrightarrow> cfg_eq t s"
  by (simp add: cfg_eq_def)

lemma cfg_eq_shot_length: "cfg_eq s t \<Longrightarrow> shot_length t tc = shot_length s tc"
  by (simp add: cfg_eq_def shot_length_def)

lemma shot_length_fits: "tc \<le> length (torques s) \<Longrightarrow> tc + shot_length s tc \<le> length (torques s)"
  by (simp add: shot_length_def)

lemma flatten_knot_run:
  assumes r: "i < length (knot_poses t)" "i < length (knot_vels t)"
    and v: "data (knot_poses t ! i) = slice x fc (fc + world_dofs t)"
           "data (knot_vels t ! i) = slice x (fc + world_dofs t) (fc + world_dofs t + world_dofs t)"
    and o: "length out = length x" "take fc out = take fc x"
  shows "\<exists>out'. flatten_knot t ''state'' i (fc, out) = Inr (fc + world_dofs t + world_dofs t, out')
           \<and> length out' = length x
           \<and> take (fc + world_dofs t + world_dofs t) out' = take (fc + world_dofs t + world_dofs t) x"
proof -
  let ?d = "world_dofs t"
  from set_slice_prefix [OF o, of ?d] obtain out1 where
    s1: "set_slice out fc (fc + ?d) (slice x fc (fc + ?d)) = Inr out1"
    and l1: "length out1 = length x" and p1: "take (fc + ?d) out1 = take (fc + ?d) x"
    by blast
  from set_slice_prefix [OF l1 p1, of ?d] obtain out2 where
    s2: "set_slice out1 (fc + ?d) (fc + ?d + ?d) (slice x (fc + ?d) (fc + ?d + ?d)) = Inr out2"
    and l2: "length out2 = length x" and p2: "take (fc + ?d + ?d) out2 = take (fc + ?d + ?d) x"
    by blast
  have "flatten_knot t ''state'' i (fc, out) = Inr (fc + ?d + ?d, out2)"
    using r v s1 s2
    by (simp add: flatten_knot_def flat_knot_pose_def flat_knot_vel_def get_item_def bindR_def)
  with l2 p2 show ?thesis by blast
qed

lemma knot_step:
  assumes r: "i < length (knot_poses s)" "i < length (knot_vels s)"
  shows "\<exists>fc1 s1.
           (if i > 0 \<or> tune_starting_point s then unflatten_knot x i fc s else (Inr fc, s))
             = (Inr fc1, s1)
         \<and> fc1 = fc + (if i > 0 \<or> tune_starting_point s then 2 else 0) * world_dofs s
         \<and> cfg_eq s s1 \<and> torques s1 = torques s
         \<and> (\<forall>i'. i' \<noteq> i \<longrightarrow> knot_poses s1 ! i' = knot_poses s ! i'
                            \<and> knot_vels s1 ! i' = knot_vels s ! i')
         \<and> (\<forall>t out. cfg_eq s t \<longrightarrow> knot_poses t ! i = knot_poses s1 ! i
               \<longrightarrow> knot_vels t ! i = knot_vels s1 ! i
               \<longrightarrow> length out = length x \<longrightarrow> take fc out = take fc x
               \<longrightarrow> (\<exists>out1. (if i > 0 \<or> tune_starting_point t
                              then flatten_knot t ''state'' i (fc, out) else Inr (fc, out))
                             = Inr (fc1, out1)
                           \<and> length out1 = length x \<and> take fc1 out1 = take fc1 x))"
proof (cases "i > 0 \<or> tune_starting_point s")
  case False
  show ?thesis
  proof (intro exI [of _ fc] exI [of _ s] conjI allI impI)
    show "(if i > 0 \<or> tune_starting_point s then unflatten_knot x i fc s else (Inr fc, s))
             = (Inr fc, s)" using False by simp
    show "fc = fc + (if i > 0 \<or> tune_starting_point s then 2 else 0) * world_dofs s"
      using False by simp
    show "cfg_eq s s" by (rule cfg_eq_refl)
  next
    fix t out assume "cfg_eq s t" "length out = length x" "take fc out = take fc x"
    then show "\<exists>out1. (if i > 0 \<or> tune_starting_point t
                              then flatten_knot t ''state'' i (fc, out) else Inr (fc, out))
                             = Inr (fc, out1)
                           \<and> length out1 = length x \<and> take fc out1 = take fc x"
      using False by (simp add: cfg_eq_def)
  qed simp_all
next
  case True
  let ?d = "world_dofs s"
  let ?s1 = "s\<lparr>knot_poses := (knot_poses s)[i := (knot_poses s ! i)\<lparr>data := slice x fc (fc + ?d)\<rparr>],
               knot_vels := (knot_vels s)[i := (knot_vels s ! i)
                               \<lparr>data := slice x (fc + ?d) (fc + ?d + ?d)\<rparr>]\<rparr>"
  have u: "unflatten_knot x i fc s = (Inr (fc + ?d + ?d), ?s1)"
    using r by (simp add: unflatten_knot_def set_data_def)
  show ?thesis
  proof (intro exI [of _ "fc + ?d + ?d"] exI [of _ ?s1] conjI allI impI)
    show "(if i > 0 \<or> tune_starting_point s then unflatten_knot x i fc s else (Inr fc, s))
             = (Inr (fc + ?d + ?d), ?s1)" using True u by simp
    show "fc + ?d + ?d = fc + (if i > 0 \<or> tune_starting_point s then 2 else 0) * world_dofs s"
      using True by simp
    show "cfg_eq s ?s1" by (simp add: cfg_eq_def)
    show "torques ?s1 = torques s" by simp
  next
    fix i' assume "i' \<noteq> i"
    then show "knot_poses ?s1 ! i' = knot_poses s ! i'" "knot_vels ?s1 ! i' = knot_vels s ! i'"
      by simp_all
  next
    fix t out
    assume c: "cfg_eq s t" and kp: "knot_poses t ! i = knot_poses ?s1 ! i"
      and kv: "knot_vels t ! i = knot_vels ?s1 ! i"
      and o: "length out = length x" "take fc out = take fc x"
    have d: "world_dofs t = ?d" and tu: "i > 0 \<or> tune_starting_point t"
      and rt: "i < length (knot_poses t)" "i < length (knot_vels t)"
      using c True r by (simp_all add: cfg_eq_def)
    have v: "data (knot_poses t ! i) = slice x fc (fc + world_dofs t)"
      "data (knot_vels t ! i) = slice x (fc + world_dofs t) (fc + world_dofs t + world_dofs t)"
      using kp kv r d by simp_all
    from flatten_knot_run [OF rt v o] tu d
    show "\<exists>out1. (if i > 0 \<or> tune_starting_point t
                              then flatten_knot t ''state'' i (fc, out) else Inr (fc, out))
                             = Inr (fc + ?d + ?d, out1)
                           \<and> length out1 = length x \<and> take (fc + ?d + ?d) out1 = take (fc + ?d + ?d) x"
      by simp
  qed
qed

lemma torque_step:
  assumes tc: "tc \<le> length (torques s)"
  shows "\<exists>s2. unflatten_torques x (shot_length s tc) (fc, tc) s
               = (Inr (fc + shot_length s tc * world_dofs s, tc + shot_length s tc), s2)
         \<and> cfg_eq s s2 \<and> knot_poses s2 = knot_poses s \<and> knot_vels s2 = knot_vels s
         \<and> (\<forall>j. j < tc \<or> tc + shot_length s tc \<le> j \<longrightarrow> torques s2 ! j = torques s ! j)
         \<and> (\<forall>t out. cfg_eq s t
               \<longrightarrow> (\<forall>j. tc \<le> j \<and> j < tc + shot_length s tc \<longrightarrow> torques t ! j = torques s2 ! j)
               \<longrightarrow> length out = length x \<longrightarrow> take fc out = take fc x
               \<longrightarrow> (\<exists>out'. flatten_torques t ''state'' (shot_length t tc) (fc, tc, out)
                             = Inr (fc + shot_length s tc * world_dofs s, tc + shot_length s tc, out')
                           \<and> length out' = length x
                           \<and> take (fc + shot_length s tc * world_dofs s) out'
                               = take (fc + shot_length s tc * world_dofs s) x))"
proof -
  let ?k = "shot_length s tc" and ?d = "world_dofs s"
  have fit: "tc + ?k \<le> length (torques s)" by (rule shot_length_fits [OF tc])
  from unflatten_torques_run [OF fit, of x fc] obtain ts where
    u: "unflatten_torques x ?k (fc, tc) s = (Inr (fc + ?k * ?d, tc + ?k), s\<lparr>torques := ts\<rparr>)"
    and len: "length ts = length (torques s)"
    and fr: "\<forall>j. j < tc \<or> tc + ?k \<le> j \<longrightarrow> ts ! j = torques s ! j"
    and vals: "\<forall>j<?k. data (ts ! (tc + j)) = slice x (fc + j * ?d) (fc + j * ?d + ?d)"
    by blast
  let ?s2 = "s\<lparr>torques := ts\<rparr>"
  show ?thesis
  proof (intro exI [of _ ?s2] conjI allI impI)
    show "unflatten_torques x ?k (fc, tc) s = (Inr (fc + ?k * ?d, tc + ?k), ?s2)" by (rule u)
    show "cfg_eq s ?s2" using len by (simp add: cfg_eq_def)
    show "knot_poses ?s2 = knot_poses s" "knot_vels ?s2 = knot_vels s" by simp_all
  next
    fix j assume "j < tc \<or> tc + ?k \<le> j"
    with fr have "ts ! j = torques s ! j" by blast
    then show "torques ?s2 ! j = torques s ! j" by simp
  next
    fix t out
    assume c: "cfg_eq s t"
      and a: "\<forall>j. tc \<le> j \<and> j < tc + ?k \<longrightarrow> torques t ! j = torques ?s2 ! j"
      and o: "length out = length x" "take fc out = take fc x"
    have d: "world_dofs t = ?d" and k: "shot_length t tc = ?k"
      and lt: "length (torques t) = length (torques s)"
      using c cfg_eq_shot_length [OF c] by (simp_all add: cfg_eq_def)
    have fit': "tc + ?k \<le> length (torques t)" using fit lt by simp
    have v: "\<forall>j<?k. data (torques t ! (tc + j))
                 = slice x (fc + j * world_dofs t) (fc + j * world_dofs t + world_dofs t)"
    proof (intro allI impI)
      fix j assume j: "j < ?k"
      then have "torques t ! (tc + j) = ts ! (tc + j)" using a by simp
      with vals j d show "data (torques t ! (tc + j))
                 = slice x (fc + j * world_dofs t) (fc + j * world_dofs t + world_dofs t)"
        by simp
    qed
    from flatten_torques_run [OF fit' v o] d k
    show "\<exists>out'. flatten_torques t ''state'' (shot_length t tc) (fc, tc, out)
                             = Inr (fc + ?k * ?d, tc + ?k, out')
                           \<and> length out' = length x
                           \<and> take (fc + ?k * ?d) out' = take (fc + ?k * ?d) x"
      by simp
  qed
qed


lemma cfg_eq_slots: "cfg_eq s t \<Longrightarrow> slots t shots tc = slots s shots tc"
  by (induction shots arbitrary: tc) (simp_all add: cfg_eq_shot_length, simp add: cfg_eq_def)

lemma shots_roundtrip:
  assumes "distinct shots"
    and "\<forall>i\<in>set shots. i < length (knot_poses s) \<and> i < length (knot_vels s)"
    and "tc \<le> length (torques s)"
  shows "\<exists>fc' tc' s'.
           unflatten_shots x shots (fc, tc) s = (Inr (fc', tc'), s')
         \<and> fc' = fc + slots s shots tc * world_dofs s
         \<and> cfg_eq s s' \<and> tc \<le> tc'
         \<and> (\<forall>i. i \<notin> set shots \<longrightarrow> knot_poses s' ! i = knot_poses s ! i
                                 \<and> knot_vels s' ! i = knot_vels s ! i)
         \<and> (\<forall>j<tc. torques s' ! j = torques s ! j)
         \<and> (\<forall>t out. cfg_eq s t
               \<longrightarrow> (\<forall>i\<in>set shots. knot_poses t ! i = knot_poses s' ! i
                                   \<and> knot_vels t ! i = knot_vels s' ! i)
               \<longrightarrow> (\<forall>j. tc \<le> j \<and> j < tc' \<longrightarrow> torques t ! j = torques s' ! j)
               \<longrightarrow> length out = length x \<longrightarrow> take fc out = take fc x
               \<longrightarrow> (\<exists>out'. flatten_shots t ''state'' shots (fc, tc, out) = Inr (fc', tc', out')
                           \<and> length out' = length x \<and> take fc' out' = take fc' x))"
  using assms
proof (induction shots arbitrary: fc tc s)
  case Nil
  show ?case
    apply (rule exI [of _ fc])
    apply (rule exI [of _ tc])
    apply (rule exI [of _ s])
    apply (simp add: cfg_eq_refl)
    done
next
  case (Cons i shots)
  let ?d = "world_dofs s"
  from Cons.prems have ri: "i < length (knot_poses s)" "i < length (knot_vels s)"
    and ni: "i \<notin> set shots" and ds: "distinct shots" by simp_all
  from knot_step [OF ri, of x fc] obtain fc1 s1 where
    k1: "(if i > 0 \<or> tune_starting_point s then unflatten_knot x i fc s else (Inr fc, s))
           = (Inr fc1, s1)"
    and f1: "fc1 = fc + (if i > 0 \<or> tune_starting_point s then 2 else 0) * ?d"
    and c1: "cfg_eq s s1" and t1: "torques s1 = torques s"
    and fr1: "\<forall>i'. i' \<noteq> i \<longrightarrow> knot_poses s1 ! i' = knot_poses s ! i'
                            \<and> knot_vels s1 ! i' = knot_vels s ! i'"
    and rp1: "\<forall>t out. cfg_eq s t \<longrightarrow> knot_poses t ! i = knot_poses s1 ! i
               \<longrightarrow> knot_vels t ! i = knot_vels s1 ! i
               \<longrightarrow> length out = length x \<longrightarrow> take fc out = take fc x
               \<longrightarrow> (\<exists>out1. (if i > 0 \<or> tune_starting_point t
                              then flatten_knot t ''state'' i (fc, out) else Inr (fc, out))
                             = Inr (fc1, out1)
                           \<and> length out1 = length x \<and> take fc1 out1 = take fc1 x)"
    by blast
  have d1: "world_dofs s1 = ?d" and k: "shot_length s1 tc = shot_length s tc"
    using c1 cfg_eq_shot_length [OF c1] by (simp_all add: cfg_eq_def)
  let ?k = "shot_length s tc"
  have tc1: "tc \<le> length (torques s1)" using Cons.prems t1 by simp
  from torque_step [OF tc1, of x fc1] obtain s2 where
    u2: "unflatten_torques x ?k (fc1, tc) s1 = (Inr (fc1 + ?k * ?d, tc + ?k), s2)"
    and c2: "cfg_eq s1 s2" and kp2: "knot_poses s2 = knot_poses s1" and kv2: "knot_vels s2 = knot_vels s1"
    and fr2: "\<forall>j. j < tc \<or> tc + ?k \<le> j \<longrightarrow> torques s2 ! j = torques s1 ! j"
    and rp2: "\<forall>t out. cfg_eq s1 t
               \<longrightarrow> (\<forall>j. tc \<le> j \<and> j < tc + ?k \<longrightarrow> torques t ! j = torques s2 ! j)
               \<longrightarrow> length out = length x \<longrightarrow> take fc1 out = take fc1 x
               \<longrightarrow> (\<exists>out'. flatten_torques t ''state'' (shot_length t tc) (fc1, tc, out)
                             = Inr (fc1 + ?k * ?d, tc + ?k, out')
                           \<and> length out' = length x
                           \<and> take (fc1 + ?k * ?d) out' = take (fc1 + ?k * ?d) x)"
    unfolding k d1 by blast
  let ?fc2 = "fc1 + ?k * ?d" and ?tc2 = "tc + ?k"
  have c02: "cfg_eq s s2" by (rule cfg_eq_trans [OF c1 c2])
  have r2: "\<forall>i\<in>set shots. i < length (knot_poses s2) \<and> i < length (knot_vels s2)"
    using Cons.prems(2) c02 by (simp add: cfg_eq_def)
  have tc2: "?tc2 \<le> length (torques s2)"
    using shot_length_fits [OF Cons.prems(3)] c02 by (simp add: cfg_eq_def)
  from Cons.IH [OF ds r2 tc2, of ?fc2] obtain fc' tc' s' where
    u3: "unflatten_shots x shots (?fc2, ?tc2) s2 = (Inr (fc', tc'), s')"
    and f3: "fc' = ?fc2 + slots s2 shots ?tc2 * world_dofs s2"
    and c3: "cfg_eq s2 s'" and le3: "?tc2 \<le> tc'"
    and fr3k: "\<forall>i. i \<notin> set shots \<longrightarrow> knot_poses s' ! i = knot_poses s2 ! i
                                 \<and> knot_vels s' ! i = knot_vels s2 ! i"
    and fr3t: "\<forall>j<?tc2. torques s' ! j = torques s2 ! j"
    and rp3: "\<forall>t out. cfg_eq s2 t
               \<longrightarrow> (\<forall>i\<in>set shots. knot_poses t ! i = knot_poses s' ! i
                                   \<and> knot_vels t ! i = knot_vels s' ! i)
               \<longrightarrow> (\<forall>j. ?tc2 \<le> j \<and> j < tc' \<longrightarrow> torques t ! j = torques s' ! j)
               \<longrightarrow> length out = length x \<longrightarrow> take ?fc2 out = take ?fc2 x
               \<longrightarrow> (\<exists>out'. flatten_shots t ''state'' shots (?fc2, ?tc2, out) = Inr (fc', tc', out')
                           \<and> length out' = length x \<and> take fc' out' = take fc' x)"
    by blast
  have c0': "cfg_eq s s'" by (rule cfg_eq_trans [OF c02 c3])
  have "unflatten_shots x (i # shots) (fc, tc) s = (Inr (fc', tc'), s')
         \<and> fc' = fc + slots s (i # shots) tc * world_dofs s
         \<and> cfg_eq s s' \<and> tc \<le> tc'
         \<and> (\<forall>i'. i' \<notin> set (i # shots) \<longrightarrow> knot_poses s' ! i' = knot_poses s ! i'
                                 \<and> knot_vels s' ! i' = knot_vels s ! i')
         \<and> (\<forall>j<tc. torques s' ! j = torques s ! j)
         \<and> (\<forall>t out. cfg_eq s t
               \<longrightarrow> (\<forall>i'\<in>set (i # shots). knot_poses t ! i' = knot_poses s' ! i'
                                   \<and> knot_vels t ! i' = knot_vels s' ! i')
               \<longrightarrow> (\<forall>j. tc \<le> j \<and> j < tc' \<longrightarrow> torques t ! j = torques s' ! j)
               \<longrightarrow> length out = length x \<longrightarrow> take fc out = take fc x
               \<longrightarrow> (\<exists>out'. flatten_shots t ''state'' (i # shots) (fc, tc, out) = Inr (fc', tc', out')
                           \<and> length out' = length x \<and> take fc' out' = take fc' x))"
  proof (intro conjI allI impI)
    show "unflatten_shots x (i # shots) (fc, tc) s = (Inr (fc', tc'), s')"
      using k1 u2 u3 k by simp
    show "fc' = fc + slots s (i # shots) tc * ?d"
      using f3 f1 cfg_eq_slots [OF c02] c02 by (simp add: cfg_eq_def algebra_simps)
    show "cfg_eq s s'" by (rule c0')
    show "tc \<le> tc'" using le3 by simp
  next
    fix i' assume n: "i' \<notin> set (i # shots)"
    then have "i' \<notin> set shots" "i' \<noteq> i" by simp_all
    with fr3k fr1 kp2 kv2
    show "knot_poses s' ! i' = knot_poses s ! i'" "knot_vels s' ! i' = knot_vels s ! i'"
      by simp_all
  next
    fix j assume "j < tc"
    then have "j < ?tc2" "j < tc \<or> tc + ?k \<le> j" by simp_all
    with fr3t fr2 have "torques s' ! j = torques s1 ! j" by metis
    with t1 show "torques s' ! j = torques s ! j" by simp
  next
    fix t out
    assume ct: "cfg_eq s t"
      and ak: "\<forall>i'\<in>set (i # shots). knot_poses t ! i' = knot_poses s' ! i'
                                   \<and> knot_vels t ! i' = knot_vels s' ! i'"
      and at: "\<forall>j. tc \<le> j \<and> j < tc' \<longrightarrow> torques t ! j = torques s' ! j"
      and o: "length out = length x" "take fc out = take fc x"
    have kti: "knot_poses t ! i = knot_poses s1 ! i" "knot_vels t ! i = knot_vels s1 ! i"
      using ak fr3k ni kp2 kv2 by simp_all
    from rp1 ct kti o obtain out1 where
      a1: "(if i > 0 \<or> tune_starting_point t
              then flatten_knot t ''state'' i (fc, out) else Inr (fc, out)) = Inr (fc1, out1)"
      and l1: "length out1 = length x" and p1: "take fc1 out1 = take fc1 x"
      by blast
    have c1t: "cfg_eq s1 t" by (rule cfg_eq_trans [OF cfg_eq_sym [OF c1] ct])
    have att: "\<forall>j. tc \<le> j \<and> j < tc + ?k \<longrightarrow> torques t ! j = torques s2 ! j"
    proof (intro allI impI)
      fix j assume j: "tc \<le> j \<and> j < tc + ?k"
      then have "torques t ! j = torques s' ! j" using at le3 by simp
      also have "\<dots> = torques s2 ! j" using fr3t j by simp
      finally show "torques t ! j = torques s2 ! j" .
    qed
    from rp2 c1t att l1 p1 obtain out2 where
      a2: "flatten_torques t ''state'' (shot_length t tc) (fc1, tc, out1)
              = Inr (?fc2, ?tc2, out2)"
      and l2: "length out2 = length x" and p2: "take ?fc2 out2 = take ?fc2 x"
      by blast
    have c2t: "cfg_eq s2 t" by (rule cfg_eq_trans [OF cfg_eq_sym [OF c02] ct])
    have ak3: "\<forall>i\<in>set shots. knot_poses t ! i = knot_poses s' ! i
                                   \<and> knot_vels t ! i = knot_vels s' ! i"
      using ak by simp
    have at3: "\<forall>j. ?tc2 \<le> j \<and> j < tc' \<longrightarrow> torques t ! j = torques s' ! j"
      using at by simp
    from rp3 c2t ak3 at3 l2 p2 obtain out' where
      a3: "flatten_shots t ''state'' shots (?fc2, ?tc2, out2) = Inr (fc', tc', out')"
      and l3: "length out' = length x" and p3: "take fc' out' = take fc' x"
      by blast
    have "flatten_shots t ''state'' (i # shots) (fc, tc, out) = Inr (fc', tc', out')"
      using a1 a2 a3 by (simp add: bindR_def)
    with l3 p3
    show "\<exists>out'. flatten_shots t ''state'' (i # shots) (fc, tc, out) = Inr (fc', tc', out')
                           \<and> length out' = length x \<and> take fc' out' = take fc' x"
      by blast
  qed
  then show ?case by (intro exI)
qed


lemma construct_valid:
  assumes "construct w sl fl stps len tune loop final disabled = Inr s"
    and "1 \<le> stps" "1 \<le> len"
  shows "valid_config s"
proof -
  from assms(1) obtain m n where
    s: "s = \<lparr>world = w, step_loss = sl, final_loss = fl, steps = stps,
                   shooting_length = min len stps,
                   disable_actuators = disabled,
                   tune_starting_point = tune, enforce_loop = loop,
                   enforce_final_state = final,
                   num_shots = stps div len,
                   torques = replicate (nat stps) (fresh_tensor (zeros (getNumDofs w))),
                   knot_poses = fresh_tensor (getPositions w)
                                # replicate (nat (stps div len - 1)) (fresh_tensor (zeros (getNumDofs w))),
                   knot_vels = fresh_tensor (getVelocities w)
                                # replicate (nat (stps div len - 1)) (fresh_tensor (zeros (getNumDofs w))),
                   mask = m,
                   last_x = replicate (nat n) (10 ^ 19),
                   snapshots = replicate (nat stps) None,
                   last_loss = 0,
                   last_preknot_poses = replicate (nat (stps div len)) (zeros (getNumDofs w)),
                   last_preknot_vels = replicate (nat (stps div len)) (zeros (getNumDofs w)),
                   last_terminal_pos = zeros (getNumDofs w),
                   last_terminal_vel = zeros (getNumDofs w),
                   soft_knot_barrier_strength = 1,
                   stdout = []\<rparr>"
    using assms(3)
    by (auto simp: construct_def bindR_def py_floordiv_def Let_def split: if_splits sum.splits)
  have "stps div len * min len stps \<le> stps"
  proof (cases "len \<le> stps")
    case True
    have "stps div len * len + stps mod len = stps" by simp
    moreover have "0 \<le> stps mod len" using assms(3) by simp
    ultimately have "stps div len * len \<le> stps" by linarith
    then show ?thesis using True by (simp add: min_def)
  next
    case False
    then have "stps div len = 0" using assms by (simp add: div_pos_pos_trivial)
    then show ?thesis using assms by simp
  qed
  then show ?thesis using assms(2,3) by (simp add: valid_config_def s)
qed


lemma slots_full:
  assumes "1 \<le> shooting_length s"
    and "tc + length shots * nat (shooting_length s) \<le> length (torques s)"
  shows "slots s shots tc
           = 2 * length (filter (\<lambda>i. i > 0 \<or> tune_starting_point s) shots)
             + length shots * nat (shooting_length s)"
  using assms(2)
proof (induction shots arbitrary: tc)
  case Nil
  then show ?case by simp
next
  case (Cons i shots)
  let ?l = "nat (shooting_length s)"
  from Cons.prems have a: "tc + ?l + length shots * ?l \<le> length (torques s)" by simp
  then have "int ?l \<le> int (length (torques s)) - int tc" by linarith
  then have k: "shot_length s tc = ?l" using assms(1) by (simp add: shot_length_def min_def)
  from Cons.IH [of "tc + ?l"] a
  have "slots s shots (tc + ?l)
           = 2 * length (filter (\<lambda>i. i > 0 \<or> tune_starting_point s) shots) + length shots * ?l"
    by simp
  with k show ?case by simp
qed

lemma free_knots_upt:
  "length (filter (\<lambda>i. i > 0 \<or> tune) [0..<n]) = (if tune then n else n - 1)"
proof (cases tune)
  case True
  then show ?thesis by simp
next
  case False
  have "filter (\<lambda>i. i > 0 \<or> tune) [0..<n] = filter (\<lambda>i. i \<noteq> 0) [0..<n]"
    by (rule filter_cong) (use False in auto)
  then have "filter (\<lambda>i. i > 0 \<or> tune) [0..<n] = [1..<n]"
    by (simp only: filter_nonzero_upt)
  then have "length (filter (\<lambda>i. i > 0 \<or> tune) [0..<n]) = length [1..<n]"
    by (rule arg_cong)
  then show ?thesis using False by simp
qed

lemma traversal_covers:
  assumes v: "valid_config s" and n: "get_flat_problem_dim s = Inr n"
  shows "n \<le> int (slots s [0..<nat (num_shots s)] 0 * world_dofs s)"
proof -
  let ?d = "int (world_dofs s)" and ?l = "shooting_length s" and ?m = "num_shots s"
  from v have l1: "1 \<le> ?l" and fit: "?m * ?l \<le> int (length (torques s))"
    by (simp_all add: valid_config_def)
  have r: "0 \<le> steps s mod ?l" using l1 by simp
  from n l1 have nv: "n = (if \<not> tune_starting_point s then ?m * (?d * 2 + ?l * ?d) - 2 * ?d
                            else ?m * (?d * 2 + ?l * ?d)) - steps s mod ?l * ?d"
    by (auto simp: get_flat_problem_dim_def py_mod_def bindR_def Let_def split: if_splits)
  have rd: "0 \<le> steps s mod ?l * ?d" using r by simp
  show ?thesis
  proof (cases "?m \<le> 0")
    case True
    have "?m * (?d * 2 + ?l * ?d) \<le> 0"
      using True l1 by (simp add: mult_le_0_iff)
    with nv rd have "n \<le> 0" by (simp split: if_splits)
    moreover have "0 \<le> int (slots s [0..<nat (num_shots s)] 0 * world_dofs s)" by simp
    ultimately show ?thesis by linarith
  next
    case False
    then have m: "int (nat ?m) = ?m" by simp
    have "0 + length [0..<nat ?m] * nat ?l \<le> length (torques s)"
    proof -
      have e: "int (nat ?m * nat ?l) = ?m * ?l" using False l1 by simp
      from fit have "int (nat ?m * nat ?l) \<le> int (length (torques s))" by (simp only: e)
      then have "nat ?m * nat ?l \<le> length (torques s)" by (simp only: of_nat_le_iff)
      then show ?thesis by simp
    qed
    from slots_full [OF l1 this]
    have sl: "slots s [0..<nat ?m] 0
                = 2 * (if tune_starting_point s then nat ?m else nat ?m - 1) + nat ?m * nat ?l"
      by (simp add: free_knots_upt)
    have "int (slots s [0..<nat ?m] 0 * world_dofs s)
            = (2 * (if tune_starting_point s then ?m else ?m - 1) + ?m * ?l) * ?d"
      using False l1 by (simp add: sl)
    then show ?thesis using nv rd by (simp add: algebra_simps split: if_splits)
  qed
qed

lemma cfg_eq_dim: "cfg_eq s t \<Longrightarrow> get_flat_problem_dim t = get_flat_problem_dim s"
  by (simp add: cfg_eq_def get_flat_problem_dim_def Let_def)

text \<open>
  C4. For every valid configuration, every flat vector \<open>x\<close> whose length is
  \<^verbatim>\<open>get_flat_problem_dim()\<close> and every buffer of that length, \<^verbatim>\<open>unflatten(x)\<close> returns and
  \<^verbatim>\<open>flatten(out, 'state')\<close> on the object it leaves returns \<open>x\<close>. This also covers a
  number of steps that is not a multiple of the shooting length: the slices past the end
  of \<open>x\<close> are cut on the way in and on the way out alike.
\<close>

theorem flatten_after_unflatten:
  assumes v: "valid_config s"
    and n: "get_flat_problem_dim s = Inr (int (length x))"
    and o: "length out = length x"
  shows "\<exists>s'. unflatten x s = (Inr (), s') \<and> flatten s' out ''state'' = Inr x"
proof -
  let ?shots = "[0..<nat (num_shots s)]"
  have d: "distinct ?shots" by simp
  have r: "\<forall>i\<in>set ?shots. i < length (knot_poses s) \<and> i < length (knot_vels s)"
    using v by (simp add: valid_config_def)
  have z: "0 \<le> length (torques s)" by simp
  from shots_roundtrip [OF d r z, of x 0] obtain fc' tc' s' where
    u: "unflatten_shots x ?shots (0, 0) s = (Inr (fc', tc'), s')"
    and f: "fc' = 0 + slots s ?shots 0 * world_dofs s"
    and c: "cfg_eq s s'"
    and rp: "\<forall>t out. cfg_eq s t
               \<longrightarrow> (\<forall>i\<in>set ?shots. knot_poses t ! i = knot_poses s' ! i
                                   \<and> knot_vels t ! i = knot_vels s' ! i)
               \<longrightarrow> (\<forall>j. 0 \<le> j \<and> j < tc' \<longrightarrow> torques t ! j = torques s' ! j)
               \<longrightarrow> length out = length x \<longrightarrow> take 0 out = take 0 x
               \<longrightarrow> (\<exists>out'. flatten_shots t ''state'' ?shots (0, 0, out) = Inr (fc', tc', out')
                           \<and> length out' = length x \<and> take fc' out' = take fc' x)"
    by blast
  have un: "unflatten x s = (Inr (), s')" using u by (simp add: unflatten_def)
  from rp c o obtain out' where
    fl: "flatten_shots s' ''state'' ?shots (0, 0, out) = Inr (fc', tc', out')"
    and l: "length out' = length x" and p: "take fc' out' = take fc' x"
    by fastforce
  have "int (length x) \<le> int (slots s ?shots 0 * world_dofs s)"
    by (rule traversal_covers [OF v n])
  then have "length x \<le> slots s ?shots 0 * world_dofs s" by (simp only: of_nat_le_iff)
  with f have "length x \<le> fc'" by simp
  with l p have "out' = x" by simp
  moreover have "num_shots s' = num_shots s" using c by (simp add: cfg_eq_def)
  ultimately have "flatten s' out ''state'' = Inr x"
    using fl n o cfg_eq_dim [OF c] by (simp add: flatten_def bindR_def)
  with un show ?thesis by blast
qed

lemma roundtrip_run:
  "valid_config s \<and> get_flat_problem_dim s = Inr (int (length [1, 2, 3, 4, 5, 6, 7, 8 :: real]))"
  if "construct spring_world no_step_loss no_final_loss 4 2 True False None [] = Inr s" for s
  using that construct_valid [OF that]
  by (auto simp: construct_eval)

theorem flatten_after_unflatten_witness:
  "\<exists>s s'. construct spring_world no_step_loss no_final_loss 4 2 True False None [] = Inr s
     \<and> valid_config s
     \<and> get_flat_problem_dim s = Inr (int (length [1, 2, 3, 4, 5, 6, 7, 8 :: real]))
     \<and> unflatten [1, 2, 3, 4, 5, 6, 7, 8] s = (Inr (), s')
     \<and> flatten s' (zeros 8) ''state'' = Inr [1, 2, 3, 4, 5, 6, 7, 8]"
proof -
  obtain s where c: "construct spring_world no_step_loss no_final_loss 4 2 True False None [] = Inr s"
    by (simp add: construct_eval)
  from roundtrip_run [OF c] have v: "valid_config s"
    and n: "get_flat_problem_dim s = Inr (int (length [1, 2, 3, 4, 5, 6, 7, 8 :: real]))"
    by simp_all
  have o: "length (zeros 8) = length [1, 2, 3, 4, 5, 6, 7, 8 :: real]" by (simp add: zeros_def)
  from flatten_after_unflatten [OF v n o] c v n show ?thesis by blast
qed

subsection \<open>The constraint vector of a well-formed object\<close>























end
